theory Spec2Isabelle
  imports Complex_Main "HOL-Library.Word" "HOL-Library.Multiset" "HOL-Library.Log_Nat"
begin

section \<open>Instance specification synthesis (pkg/specs/pods.go)\<close>

text \<open>
  The development embeds \<^verbatim>\<open>pkg/specs/pods.go\<close>: the environment configuration of a
  container, the probes of the PostgreSQL container and their failure thresholds, the
  affinity section, the composition of the Pod and the extension pipeline of
  \<^verbatim>\<open>NewInstance\<close>. Go structs are records, Go pointers are options (\<open>None\<close> is the nil
  pointer), Go slices are lists (\<open>len\<close> does not tell a nil slice from an empty one, and
  neither does the model), Go maps are partial functions, and a map that may be nil where
  the code writes into it is an option of a partial function. Every field of a record is
  named \<open>Struct_Field\<close> after the Go struct and field it stands for.
\<close>

subsection \<open>Machine integers and strings\<close>

type_synonym int32 = "32 word"
type_synonym int64 = "64 word"

text \<open>\<^verbatim>\<open>strconv.Itoa\<close>: the decimal digits of an integer, with a minus sign when negative.\<close>

fun digits :: "nat \<Rightarrow> string" where
  "digits n = (if n < 10 then [''0123456789'' ! n]
               else digits (n div 10) @ [''0123456789'' ! (n mod 10)])"

declare digits.simps [simp del]

definition Itoa :: "int \<Rightarrow> string" where
  "Itoa i = (if i < 0 then CHR ''-'' # digits (nat (- i)) else digits (nat i))"

subsection \<open>Floating point, as far as getFailureThreshold needs it\<close>

text \<open>
  A \<^verbatim>\<open>float64\<close> is a finite value, an infinity or not a number. Every \<^verbatim>\<open>int32\<close>
  converts to \<^verbatim>\<open>float64\<close> exactly, so the quotient of two converted integers is the
  exact quotient rounded once, to the nearest value with 53 significant bits, ties to the
  even significand (the quotient of two non-zero \<^verbatim>\<open>int32\<close> lies between \<open>2\<^sup>-\<^sup>3\<^sup>1\<close> and
  \<open>2\<^sup>3\<^sup>1\<close> in magnitude, far from overflow and from the subnormal range).
\<close>

datatype float64 = Finite rat | PosInf | NegInf | NaN

definition round_half_even :: "rat \<Rightarrow> int" where
  "round_half_even y =
     (let f = \<lfloor>y\<rfloor>; r = y - of_int f
      in if r < 1 / 2 then f else if 1 / 2 < r then f + 1
         else if even f then f else f + 1)"

text \<open>The binary exponent of a positive rational: \<open>2\<^sup>e \<le> x < 2\<^sup>e\<^sup>+\<^sup>1\<close>.\<close>

definition exponent :: "rat \<Rightarrow> int" where
  "exponent x =
     (let (a, b) = quotient_of x; c = bitlen a - bitlen b
      in if 2 powi c \<le> x then c else c - 1)"

definition round64 :: "rat \<Rightarrow> rat" where
  "round64 x =
     (if x = 0 then 0
      else let u = 2 powi (exponent \<bar>x\<bar> - 52)
           in sgn x * of_int (round_half_even (\<bar>x\<bar> / u)) * u)"

definition float64_div :: "int \<Rightarrow> int \<Rightarrow> float64" where
  "float64_div a b =
     (if b = 0 then (if 0 < a then PosInf else if a < 0 then NegInf else NaN)
      else Finite (round64 (of_int a / of_int b)))"

fun math_Ceil :: "float64 \<Rightarrow> float64" where
  "math_Ceil (Finite x) = Finite (of_int \<lceil>x\<rceil>)"
| "math_Ceil f = f"

text \<open>
  The conversion \<^verbatim>\<open>int32(f)\<close> discards the fraction. Where the result does not fit, Go
  leaves the value to the implementation: \<open>unrep\<close> is that choice (\<open>go_unrepresentable\<close>
  of the environment).
\<close>

definition trunc_zero :: "rat \<Rightarrow> int" where
  "trunc_zero x = (if 0 \<le> x then \<lfloor>x\<rfloor> else \<lceil>x\<rceil>)"

fun int32_of_float64 :: "(float64 \<Rightarrow> int32) \<Rightarrow> float64 \<Rightarrow> int32" where
  "int32_of_float64 unrep (Finite x) =
     (if - (2 ^ 31) \<le> trunc_zero x \<and> trunc_zero x < 2 ^ 31 then word_of_int (trunc_zero x)
      else unrep (Finite x))"
| "int32_of_float64 unrep f = unrep f"

subsection \<open>Kubernetes API values\<close>

text \<open>
  Values that the code only passes through are kept abstract; \<^verbatim>\<open>reflect.DeepEqual\<close> on
  them is equality of the values they stand for.
\<close>

typedecl EnvVarSource
typedecl Toleration
typedecl TopologySpreadConstraint
typedecl SeccompProfile
typedecl Volume
typedecl VolumeMount
typedecl SecurityContext

record EnvVar =
  EnvVar_Name :: string
  EnvVar_Value :: string
  EnvVar_ValueFrom :: "EnvVarSource option"

text \<open>
  An environment source names a config map or a secret: the name of the object and the
  \<^verbatim>\<open>Optional\<close> flag, a pointer to a boolean.
\<close>

record EnvFromSource =
  EnvFromSource_Prefix :: string
  EnvFromSource_ConfigMapRef :: "(string \<times> bool option) option"
  EnvFromSource_SecretRef :: "(string \<times> bool option) option"

record LabelSelectorRequirement =
  LabelSelectorRequirement_Key :: string
  LabelSelectorRequirement_Operator :: string
  LabelSelectorRequirement_Values :: "string list"

record LabelSelector =
  LabelSelector_MatchLabels :: "string \<rightharpoonup> string"
  LabelSelector_MatchExpressions :: "LabelSelectorRequirement list"

record PodAffinityTerm =
  PodAffinityTerm_LabelSelector :: "LabelSelector option"
  PodAffinityTerm_Namespaces :: "string list"
  PodAffinityTerm_TopologyKey :: string
  PodAffinityTerm_NamespaceSelector :: "LabelSelector option"

record WeightedPodAffinityTerm =
  WeightedPodAffinityTerm_Weight :: int32
  WeightedPodAffinityTerm_PodAffinityTerm :: PodAffinityTerm

record PodAntiAffinity =
  RequiredDuringSchedulingIgnoredDuringExecution :: "PodAffinityTerm list"
  PreferredDuringSchedulingIgnoredDuringExecution :: "WeightedPodAffinityTerm list"

record PodAffinity =
  PodAffinity_Required :: "PodAffinityTerm list"
  PodAffinity_Preferred :: "WeightedPodAffinityTerm list"

text \<open>A node selector requirement has the fields of a label selector requirement.\<close>

record NodeSelectorTerm =
  NodeSelectorTerm_MatchExpressions :: "LabelSelectorRequirement list"
  NodeSelectorTerm_MatchFields :: "LabelSelectorRequirement list"

record PreferredSchedulingTerm =
  PreferredSchedulingTerm_Weight :: int32
  PreferredSchedulingTerm_Preference :: NodeSelectorTerm

record NodeAffinity =
  NodeAffinity_Required :: "NodeSelectorTerm list option"
  NodeAffinity_Preferred :: "PreferredSchedulingTerm list"

record Affinity =
  Affinity_NodeAffinity :: "NodeAffinity option"
  Affinity_PodAffinity :: "PodAffinity option"
  Affinity_PodAntiAffinity :: "PodAntiAffinity option"

text \<open>\<^verbatim>\<open>metav1.LabelSelectorOpIn\<close> of the Kubernetes API.\<close>

definition LabelSelectorOpIn :: string where
  "LabelSelectorOpIn = ''In''"

subsection \<open>The cluster description (api/v1)\<close>

record AffinityConfiguration =
  EnablePodAntiAffinity :: "bool option"
  TopologyKey :: string
  NodeSelector :: "string \<rightharpoonup> string"
  NodeAffinity :: "NodeAffinity option"
  Tolerations :: "Toleration list"
  PodAntiAffinityType :: string
  AdditionalPodAntiAffinity :: "PodAntiAffinity option"
  AdditionalPodAffinity :: "PodAffinity option"

text \<open>
  Modelled from the spec: the two constants \<^verbatim>\<open>apiv1.PodAntiAffinityTypeRequired\<close> and
  \<^verbatim>\<open>apiv1.PodAntiAffinityTypePreferred\<close> are declared outside the files at hand; the
  specification names the two modes "required" and "preferred".
\<close>

definition PodAntiAffinityTypeRequired :: string where
  "PodAntiAffinityTypeRequired = ''required''"

definition PodAntiAffinityTypePreferred :: string where
  "PodAntiAffinityTypePreferred = ''preferred''"

text \<open>
  A probe override of the cluster (\<^verbatim>\<open>apiv1.Probe\<close>): zero, or nil for the grace period,
  is a field the author left unset.
\<close>

record ProbeOverride =
  ProbeOverride_InitialDelaySeconds :: int32
  ProbeOverride_TimeoutSeconds :: int32
  ProbeOverride_PeriodSeconds :: int32
  ProbeOverride_SuccessThreshold :: int32
  ProbeOverride_FailureThreshold :: int32
  ProbeOverride_TerminationGracePeriodSeconds :: "int64 option"

record ProbesConfiguration =
  Probes_Startup :: "ProbeOverride option"
  Probes_Liveness :: "ProbeOverride option"
  Probes_Readiness :: "ProbeOverride option"

record ResourceRequirements =
  ResourceRequirements_Limits :: "string \<rightharpoonup> string"
  ResourceRequirements_Requests :: "string \<rightharpoonup> string"

record ClusterSpec =
  ClusterSpec_Env :: "EnvVar list"
  ClusterSpec_EnvFrom :: "EnvFromSource list"
  ClusterSpec_SchedulerName :: string
  ClusterSpec_ImagePullPolicy :: string
  ClusterSpec_Resources :: ResourceRequirements
  ClusterSpec_Affinity :: AffinityConfiguration
  ClusterSpec_TopologySpreadConstraints :: "TopologySpreadConstraint list"
  ClusterSpec_PriorityClassName :: string
  ClusterSpec_Probes :: "ProbesConfiguration option"
  ClusterSpec_LivenessProbeTimeout :: "int32 option"

record ClusterStatus =
  ClusterStatus_Image :: string

record Cluster =
  Cluster_Name :: string
  Cluster_Namespace :: string
  Cluster_Annotations :: "string \<rightharpoonup> string"
  Cluster_Spec :: ClusterSpec
  Cluster_Status :: ClusterStatus

subsection \<open>Constants of pods.go\<close>

definition PostgresContainerName :: string where
  "PostgresContainerName = ''postgres''"

definition PgDataPath :: string where
  "PgDataPath = ''/var/lib/postgresql/data/pgdata''"

definition ReadinessProbePeriod :: int32 where
  "ReadinessProbePeriod = 10"

definition StartupProbePeriod :: int32 where
  "StartupProbePeriod = 10"

definition LivenessProbePeriod :: int32 where
  "LivenessProbePeriod = 10"

subsection \<open>The Pod (k8s.io/api/core/v1)\<close>

datatype IntOrString = FromInt32 int32 | FromString string

record HTTPGetAction =
  HTTPGetAction_Path :: string
  HTTPGetAction_Port :: IntOrString
  HTTPGetAction_Scheme :: string

definition URISchemeHTTPS :: string where
  "URISchemeHTTPS = ''HTTPS''"

record Probe =
  Probe_HTTPGet :: HTTPGetAction
  Probe_InitialDelaySeconds :: int32
  Probe_TimeoutSeconds :: int32
  Probe_PeriodSeconds :: int32
  Probe_SuccessThreshold :: int32
  Probe_FailureThreshold :: int32
  Probe_TerminationGracePeriodSeconds :: "int64 option"

record ContainerPort =
  ContainerPort_Name :: string
  ContainerPort_ContainerPort :: int32
  ContainerPort_Protocol :: string

text \<open>
  The three probes of a container are pointers in Go. Every container that this file
  builds has all three, so the record holds the probes themselves.
\<close>

record Container =
  Container_Name :: string
  Container_Image :: string
  Container_ImagePullPolicy :: string
  Container_Env :: "EnvVar list"
  Container_EnvFrom :: "EnvFromSource list"
  Container_VolumeMounts :: "VolumeMount list"
  Container_StartupProbe :: Probe
  Container_ReadinessProbe :: Probe
  Container_LivenessProbe :: Probe
  Container_Command :: "string list"
  Container_Resources :: ResourceRequirements
  Container_Ports :: "ContainerPort list"
  Container_SecurityContext :: "SecurityContext option"

record PodSecurityContext =
  RunAsNonRoot :: "bool option"
  RunAsUser :: "int64 option"
  RunAsGroup :: "int64 option"
  FSGroup :: "int64 option"
  PodSecurityContext_SeccompProfile :: "SeccompProfile option"

record PodSpec =
  PodSpec_Hostname :: string
  PodSpec_InitContainers :: "Container list"
  PodSpec_SchedulerName :: string
  PodSpec_Containers :: "Container list"
  PodSpec_Volumes :: "Volume list"
  PodSpec_SecurityContext :: "PodSecurityContext option"
  PodSpec_Affinity :: "Affinity option"
  PodSpec_Tolerations :: "Toleration list"
  PodSpec_ServiceAccountName :: string
  PodSpec_NodeSelector :: "string \<rightharpoonup> string"
  PodSpec_TerminationGracePeriodSeconds :: "int64 option"
  PodSpec_TopologySpreadConstraints :: "TopologySpreadConstraint list"
  PodSpec_PriorityClassName :: string
  PodSpec_Subdomain :: string

text \<open>
  \<^verbatim>\<open>Labels\<close> and \<^verbatim>\<open>Annotations\<close> are Go maps: \<open>None\<close> is the nil map, which can be
  read (every key is absent) but not written.
\<close>

record ObjectMeta =
  ObjectMeta_Name :: string
  ObjectMeta_Namespace :: string
  ObjectMeta_Labels :: "(string \<rightharpoonup> string) option"
  ObjectMeta_Annotations :: "(string \<rightharpoonup> string) option"

record Pod =
  Pod_ObjectMeta :: ObjectMeta
  Pod_Spec :: PodSpec

subsection \<open>Packages of the repository outside the files at hand\<close>

text \<open>
  The constants, process-wide settings and helper functions that \<^verbatim>\<open>pods.go\<close> takes
  from other files of the repository are parameters of the model, one record per Go
  package; \<open>apiv1_pkg\<close> holds the methods of \<^verbatim>\<open>apiv1.Cluster\<close> and \<open>specs_pkg\<close> the
  functions of package \<^verbatim>\<open>specs\<close> that other files define. A helper that receives a
  pointer returns the value it leaves behind the pointer.
\<close>

type_synonym go_error = string

record postgres_pkg =
  TemporaryDirectory :: string
  SocketDirectory :: string
  ServerPort :: int

record url_pkg =
  PathStartup :: string
  PathReady :: string
  PathHealth :: string
  StatusPort :: int32
  PostgresMetricsPort :: int32

record configuration_pkg =
  StandbyTCPUserTimeout :: int
  CreateAnyService :: bool

record plugin_pkg =
  OperationVerbEvaluate :: string

record utils_pkg =
  ClusterLabelName :: string
  PodRoleLabelName :: string
  PodRoleInstance :: string
  InstanceNameLabelName :: string
  ClusterSerialAnnotationName :: string
  PodEnvHashAnnotationName :: string
  PodSpecAnnotationName :: string
  PodPatchAnnotationName :: string
  HaveSecurityContextConstraints :: bool
  IsAnnotationAppArmorPresent :: "PodSpec \<Rightarrow> (string \<rightharpoonup> string) \<Rightarrow> bool"
  AnnotateAppArmor ::
    "ObjectMeta \<Rightarrow> PodSpec \<Rightarrow> (string \<rightharpoonup> string) \<Rightarrow> ObjectMeta \<times> PodSpec"

record hash_pkg =
  ComputeHash :: "EnvVar list \<times> EnvFromSource list \<times> string \<Rightarrow> string \<times> go_error option"

record apiv1_pkg =
  GetMaxStartDelay :: "Cluster \<Rightarrow> int32"
  GetMaxStopDelay :: "Cluster \<Rightarrow> int32"
  GetSeccompProfile :: "Cluster \<Rightarrow> SeccompProfile option"
  GetPostgresUID :: "Cluster \<Rightarrow> int64"
  GetPostgresGID :: "Cluster \<Rightarrow> int64"
  IsMetricsTLSEnabled :: "Cluster \<Rightarrow> bool"
  GetServiceAnyName :: "Cluster \<Rightarrow> string"

record specs_pkg =
  createBootstrapContainer :: "Cluster \<Rightarrow> Container"
  createPostgresVolumes :: "Cluster \<Rightarrow> string \<Rightarrow> Volume list"
  CreatePostgresVolumeMounts :: "Cluster \<Rightarrow> VolumeMount list"
  CreateContainerSecurityContext :: "SeccompProfile option \<Rightarrow> SecurityContext option"
  addManagerLoggingOptions :: "Cluster \<Rightarrow> Container \<Rightarrow> Container"

subsection \<open>Libraries\<close>

text \<open>
  The JSON encoder and decoder, the JSON-patch library and \<^verbatim>\<open>path.Join\<close> are functions
  of the environment. A call that returns a Go error returns \<open>Inl\<close> of it.
  \<^verbatim>\<open>json.Unmarshal\<close> decodes into the Pod it is given, so it takes that Pod too. A decoded
  patch is a list of operations, each a JSON object.
\<close>

type_synonym Patch = "(string \<rightharpoonup> string) list"

record libraries =
  json_Marshal_Pod :: "Pod \<Rightarrow> go_error + string"
  json_Marshal_PodSpec :: "PodSpec \<Rightarrow> go_error + string"
  json_Unmarshal_Pod :: "string \<Rightarrow> Pod \<Rightarrow> go_error + Pod"
  jsonpatch_DecodePatch :: "string \<Rightarrow> go_error + Patch"
  jsonpatch_Apply :: "Patch \<Rightarrow> string \<Rightarrow> go_error + string"
  path_Join :: "string \<Rightarrow> string \<Rightarrow> string"

record world =
  postgres :: postgres_pkg
  url :: url_pkg
  configuration_Current :: configuration_pkg
  plugin :: plugin_pkg
  utils :: utils_pkg
  hash :: hash_pkg
  apiv1 :: apiv1_pkg
  specs :: specs_pkg
  lib :: libraries
  go_unrepresentable :: "float64 \<Rightarrow> int32"

subsection \<open>EnvConfig\<close>

record EnvConfig =
  EnvVars :: "EnvVar list"
  EnvFrom :: "EnvFromSource list"
  Hash :: string

text \<open>
  \<^verbatim>\<open>slices.EqualFunc\<close> of the Go standard library: different lengths are unequal,
  otherwise the elements are compared pairwise from the front.
\<close>

fun EqualFunc :: "'a list \<Rightarrow> 'b list \<Rightarrow> ('a \<Rightarrow> 'b \<Rightarrow> bool) \<Rightarrow> bool" where
  "EqualFunc [] [] eq = True"
| "EqualFunc (x # xs) (y # ys) eq = (if \<not> eq x y then False else EqualFunc xs ys eq)"
| "EqualFunc _ _ eq = False"

text \<open>\<^verbatim>\<open>reflect.DeepEqual\<close> on two values of one type.\<close>

definition DeepEqual :: "'a \<Rightarrow> 'a \<Rightarrow> bool" where
  "DeepEqual e1 e2 = (e1 = e2)"

definition IsEnvEqual :: "EnvConfig \<Rightarrow> Container \<Rightarrow> bool" where
  "IsEnvEqual c container =
     (if \<not> EqualFunc (Container_EnvFrom container) (EnvFrom c) (\<lambda>e1 e2. DeepEqual e1 e2)
      then False
      else EqualFunc (Container_Env container) (EnvVars c) (\<lambda>e1 e2. DeepEqual e1 e2))"

text \<open>
  \<^verbatim>\<open>CreatePodEnvConfig\<close>. The hash is computed over the configuration whose \<open>Hash\<close>
  field is still empty, and the error that \<^verbatim>\<open>hash.ComputeHash\<close> may return is dropped.
\<close>

definition baselineEnvVars :: "world \<Rightarrow> Cluster \<Rightarrow> string \<Rightarrow> EnvVar list" where
  "baselineEnvVars w cluster podName =
     [\<lparr>EnvVar_Name = ''PGDATA'', EnvVar_Value = PgDataPath, EnvVar_ValueFrom = None\<rparr>,
      \<lparr>EnvVar_Name = ''POD_NAME'', EnvVar_Value = podName, EnvVar_ValueFrom = None\<rparr>,
      \<lparr>EnvVar_Name = ''NAMESPACE'', EnvVar_Value = Cluster_Namespace cluster,
         EnvVar_ValueFrom = None\<rparr>,
      \<lparr>EnvVar_Name = ''CLUSTER_NAME'', EnvVar_Value = Cluster_Name cluster,
         EnvVar_ValueFrom = None\<rparr>,
      \<lparr>EnvVar_Name = ''PSQL_HISTORY'',
         EnvVar_Value = path_Join (lib w) (TemporaryDirectory (postgres w)) ''.psql_history'',
         EnvVar_ValueFrom = None\<rparr>,
      \<lparr>EnvVar_Name = ''PGPORT'', EnvVar_Value = Itoa (ServerPort (postgres w)),
         EnvVar_ValueFrom = None\<rparr>,
      \<lparr>EnvVar_Name = ''PGHOST'', EnvVar_Value = SocketDirectory (postgres w),
         EnvVar_ValueFrom = None\<rparr>,
      \<lparr>EnvVar_Name = ''TMPDIR'', EnvVar_Value = TemporaryDirectory (postgres w),
         EnvVar_ValueFrom = None\<rparr>]"

definition CreatePodEnvConfig :: "world \<Rightarrow> Cluster \<Rightarrow> string \<Rightarrow> EnvConfig" where
  "CreatePodEnvConfig w cluster podName =
     (let config = \<lparr>EnvVars = baselineEnvVars w cluster podName,
                     EnvFrom = ClusterSpec_EnvFrom (Cluster_Spec cluster),
                     Hash = []\<rparr>;
          config = config\<lparr>EnvVars := EnvVars config @ ClusterSpec_Env (Cluster_Spec cluster)\<rparr>;
          config =
            (if StandbyTCPUserTimeout (configuration_Current w) \<noteq> 0
             then config\<lparr>EnvVars := EnvVars config @
                    [\<lparr>EnvVar_Name = ''CNPG_STANDBY_TCP_USER_TIMEOUT'',
                      EnvVar_Value = Itoa (StandbyTCPUserTimeout (configuration_Current w)),
                      EnvVar_ValueFrom = None\<rparr>]\<rparr>
             else config);
          hashValue = fst (ComputeHash (hash w) (EnvVars config, EnvFrom config, Hash config))
      in config\<lparr>Hash := hashValue\<rparr>)"

subsection \<open>Affinity\<close>

text \<open>\<^verbatim>\<open>CreateGeneratedAntiAffinity\<close>: \<open>None\<close> is the nil pointer it returns.\<close>

definition podAffinityTerm :: "world \<Rightarrow> string \<Rightarrow> string \<Rightarrow> PodAffinityTerm" where
  "podAffinityTerm w clusterName topologyKey =
     \<lparr>PodAffinityTerm_LabelSelector = Some
        \<lparr>LabelSelector_MatchLabels = Map.empty,
         LabelSelector_MatchExpressions =
           [\<lparr>LabelSelectorRequirement_Key = ClusterLabelName (utils w),
             LabelSelectorRequirement_Operator = LabelSelectorOpIn,
             LabelSelectorRequirement_Values = [clusterName]\<rparr>,
            \<lparr>LabelSelectorRequirement_Key = PodRoleLabelName (utils w),
             LabelSelectorRequirement_Operator = LabelSelectorOpIn,
             LabelSelectorRequirement_Values = [PodRoleInstance (utils w)]\<rparr>]\<rparr>,
      PodAffinityTerm_Namespaces = [],
      PodAffinityTerm_TopologyKey = topologyKey,
      PodAffinityTerm_NamespaceSelector = None\<rparr>"

definition CreateGeneratedAntiAffinity ::
  "world \<Rightarrow> string \<Rightarrow> AffinityConfiguration \<Rightarrow> Affinity option" where
  "CreateGeneratedAntiAffinity w clusterName config =
     (if EnablePodAntiAffinity config \<noteq> None \<and> \<not> the (EnablePodAntiAffinity config)
      then None
      else
        let affinity = \<lparr>Affinity_NodeAffinity = None, Affinity_PodAffinity = None,
                         Affinity_PodAntiAffinity = Some
                           \<lparr>RequiredDuringSchedulingIgnoredDuringExecution = [],
                            PreferredDuringSchedulingIgnoredDuringExecution = []\<rparr>\<rparr>;
            topologyKey = TopologyKey config;
            topologyKey = (if length topologyKey = 0 then ''kubernetes.io/hostname''
                           else topologyKey);
            term = podAffinityTerm w clusterName topologyKey
        in if PodAntiAffinityType config = PodAntiAffinityTypeRequired
           then Some (affinity\<lparr>Affinity_PodAntiAffinity := Some
                  \<lparr>RequiredDuringSchedulingIgnoredDuringExecution = [term],
                   PreferredDuringSchedulingIgnoredDuringExecution = []\<rparr>\<rparr>)
           else if PodAntiAffinityType config = PodAntiAffinityTypePreferred
           then Some (affinity\<lparr>Affinity_PodAntiAffinity := Some
                  \<lparr>RequiredDuringSchedulingIgnoredDuringExecution = [],
                   PreferredDuringSchedulingIgnoredDuringExecution =
                     [\<lparr>WeightedPodAffinityTerm_Weight = 100,
                       WeightedPodAffinityTerm_PodAffinityTerm = term\<rparr>]\<rparr>\<rparr>)
           else None)"

text \<open>
  \<^verbatim>\<open>CreateAffinitySection\<close>. The three updates run in the order of the source; the
  anti-affinity object is created when the generated affinity has none.
\<close>

definition CreateAffinitySection ::
  "world \<Rightarrow> string \<Rightarrow> AffinityConfiguration \<Rightarrow> Affinity option" where
  "CreateAffinitySection w clusterName config =
     (let affinity = CreateGeneratedAntiAffinity w clusterName config
      in if AdditionalPodAffinity config = None \<and> AdditionalPodAntiAffinity config = None
            \<and> NodeAffinity config = None
         then affinity
         else
           let affinity = (case affinity of
                             None \<Rightarrow> \<lparr>Affinity_NodeAffinity = None, Affinity_PodAffinity = None,
                                      Affinity_PodAntiAffinity = None\<rparr>
                           | Some a \<Rightarrow> a);
               affinity = (if AdditionalPodAffinity config \<noteq> None
                           then affinity\<lparr>Affinity_PodAffinity := AdditionalPodAffinity config\<rparr>
                           else affinity);
               affinity =
                 (case AdditionalPodAntiAffinity config of
                    None \<Rightarrow> affinity
                  | Some additional \<Rightarrow>
                      let anti = (case Affinity_PodAntiAffinity affinity of
                                    None \<Rightarrow> \<lparr>RequiredDuringSchedulingIgnoredDuringExecution = [],
                                             PreferredDuringSchedulingIgnoredDuringExecution = []\<rparr>
                                  | Some a \<Rightarrow> a);
                          anti = anti\<lparr>RequiredDuringSchedulingIgnoredDuringExecution :=
                                   RequiredDuringSchedulingIgnoredDuringExecution anti @
                                   RequiredDuringSchedulingIgnoredDuringExecution additional\<rparr>;
                          anti = anti\<lparr>PreferredDuringSchedulingIgnoredDuringExecution :=
                                   PreferredDuringSchedulingIgnoredDuringExecution anti @
                                   PreferredDuringSchedulingIgnoredDuringExecution additional\<rparr>
                      in affinity\<lparr>Affinity_PodAntiAffinity := Some anti\<rparr>);
               affinity = (if NodeAffinity config \<noteq> None
                           then affinity\<lparr>Affinity_NodeAffinity := NodeAffinity config\<rparr>
                           else affinity)
           in Some affinity)"

subsection \<open>Probes and the PostgreSQL container\<close>

text \<open>
  \<^verbatim>\<open>getFailureThreshold\<close>; \<open>\<le>s\<close> is the signed comparison of \<^verbatim>\<open>int32\<close>.
\<close>

definition getFailureThreshold :: "(float64 \<Rightarrow> int32) \<Rightarrow> int32 \<Rightarrow> int32 \<Rightarrow> int32" where
  "getFailureThreshold unrep startupDelay period =
     (if startupDelay \<le>s period then 1
      else int32_of_float64 unrep
             (math_Ceil (float64_div (sint startupDelay) (sint period))))"

text \<open>
  Modelled from the spec: \<^verbatim>\<open>ApplyInto\<close> of \<^verbatim>\<open>apiv1.Probe\<close>, which is defined outside
  the files at hand. Only the fields that the override sets replace the fields of the
  probe; a nil override changes nothing.
\<close>

definition ApplyInto :: "ProbeOverride option \<Rightarrow> Probe \<Rightarrow> Probe" where
  "ApplyInto p k8sProbe =
     (case p of
        None \<Rightarrow> k8sProbe
      | Some p \<Rightarrow>
          let k = k8sProbe;
              k = (if ProbeOverride_InitialDelaySeconds p \<noteq> 0
                   then k\<lparr>Probe_InitialDelaySeconds := ProbeOverride_InitialDelaySeconds p\<rparr>
                   else k);
              k = (if ProbeOverride_TimeoutSeconds p \<noteq> 0
                   then k\<lparr>Probe_TimeoutSeconds := ProbeOverride_TimeoutSeconds p\<rparr> else k);
              k = (if ProbeOverride_PeriodSeconds p \<noteq> 0
                   then k\<lparr>Probe_PeriodSeconds := ProbeOverride_PeriodSeconds p\<rparr> else k);
              k = (if ProbeOverride_SuccessThreshold p \<noteq> 0
                   then k\<lparr>Probe_SuccessThreshold := ProbeOverride_SuccessThreshold p\<rparr>
                   else k);
              k = (if ProbeOverride_FailureThreshold p \<noteq> 0
                   then k\<lparr>Probe_FailureThreshold := ProbeOverride_FailureThreshold p\<rparr>
                   else k);
              k = (if ProbeOverride_TerminationGracePeriodSeconds p \<noteq> None
                   then k\<lparr>Probe_TerminationGracePeriodSeconds :=
                            ProbeOverride_TerminationGracePeriodSeconds p\<rparr>
                   else k)
          in k)"

definition ensureCustomProbesConfiguration :: "Cluster \<Rightarrow> Container \<Rightarrow> Container" where
  "ensureCustomProbesConfiguration cluster container =
     (case ClusterSpec_Probes (Cluster_Spec cluster) of
        None \<Rightarrow> container
      | Some probes \<Rightarrow>
          let container = container\<lparr>Container_LivenessProbe :=
                ApplyInto (Probes_Liveness probes) (Container_LivenessProbe container)\<rparr>;
              container = container\<lparr>Container_ReadinessProbe :=
                ApplyInto (Probes_Readiness probes) (Container_ReadinessProbe container)\<rparr>;
              container = container\<lparr>Container_StartupProbe :=
                ApplyInto (Probes_Startup probes) (Container_StartupProbe container)\<rparr>
          in container)"

definition defaultProbe :: "world \<Rightarrow> int32 \<Rightarrow> string \<Rightarrow> Probe" where
  "defaultProbe w period path =
     \<lparr>Probe_HTTPGet = \<lparr>HTTPGetAction_Path = path,
                        HTTPGetAction_Port = FromInt32 (StatusPort (url w)),
                        HTTPGetAction_Scheme = []\<rparr>,
      Probe_InitialDelaySeconds = 0,
      Probe_TimeoutSeconds = 5,
      Probe_PeriodSeconds = period,
      Probe_SuccessThreshold = 0,
      Probe_FailureThreshold = 0,
      Probe_TerminationGracePeriodSeconds = None\<rparr>"

definition setScheme :: "string \<Rightarrow> Probe \<Rightarrow> Probe" where
  "setScheme scheme probe =
     probe\<lparr>Probe_HTTPGet := (Probe_HTTPGet probe)\<lparr>HTTPGetAction_Scheme := scheme\<rparr>\<rparr>"

text \<open>
  \<^verbatim>\<open>createPostgresContainers\<close> in three parts: \<open>postgresContainer\<close> is the container
  literal, \<open>configuredPostgresContainer\<close> runs the statements up to and including
  \<^verbatim>\<open>ensureCustomProbesConfiguration\<close>, and \<open>ensureFailureThresholds\<close> is the two
  conditionals that follow the comment "ensure a proper threshold is set".
\<close>

definition postgresContainer :: "world \<Rightarrow> Cluster \<Rightarrow> EnvConfig \<Rightarrow> Container" where
  "postgresContainer w cluster envConfig =
     \<lparr>Container_Name = PostgresContainerName,
      Container_Image = ClusterStatus_Image (Cluster_Status cluster),
      Container_ImagePullPolicy = ClusterSpec_ImagePullPolicy (Cluster_Spec cluster),
      Container_Env = EnvVars envConfig,
      Container_EnvFrom = EnvFrom envConfig,
      Container_VolumeMounts = CreatePostgresVolumeMounts (specs w) cluster,
      Container_StartupProbe = defaultProbe w StartupProbePeriod (PathStartup (url w)),
      Container_ReadinessProbe = defaultProbe w ReadinessProbePeriod (PathReady (url w)),
      Container_LivenessProbe = defaultProbe w LivenessProbePeriod (PathHealth (url w)),
      Container_Command = [''/controller/manager'', ''instance'', ''run''],
      Container_Resources = ClusterSpec_Resources (Cluster_Spec cluster),
      Container_Ports =
        [\<lparr>ContainerPort_Name = ''postgresql'',
          ContainerPort_ContainerPort = word_of_int (ServerPort (postgres w)),
          ContainerPort_Protocol = ''TCP''\<rparr>,
         \<lparr>ContainerPort_Name = ''metrics'',
          ContainerPort_ContainerPort = PostgresMetricsPort (url w),
          ContainerPort_Protocol = ''TCP''\<rparr>,
         \<lparr>ContainerPort_Name = ''status'',
          ContainerPort_ContainerPort = StatusPort (url w),
          ContainerPort_Protocol = ''TCP''\<rparr>],
      Container_SecurityContext =
        CreateContainerSecurityContext (specs w) (GetSeccompProfile (apiv1 w) cluster)\<rparr>"

definition configuredPostgresContainer ::
  "world \<Rightarrow> Cluster \<Rightarrow> EnvConfig \<Rightarrow> bool \<Rightarrow> Container" where
  "configuredPostgresContainer w cluster envConfig enableHTTPS =
     (let c = postgresContainer w cluster envConfig;
          c = (if enableHTTPS
               then c\<lparr>Container_StartupProbe := setScheme URISchemeHTTPS (Container_StartupProbe c),
                      Container_LivenessProbe := setScheme URISchemeHTTPS (Container_LivenessProbe c),
                      Container_ReadinessProbe :=
                        setScheme URISchemeHTTPS (Container_ReadinessProbe c),
                      Container_Command := Container_Command c @ [''--status-port-tls'']\<rparr>
               else c);
          c = (if IsMetricsTLSEnabled (apiv1 w) cluster
               then c\<lparr>Container_Command := Container_Command c @ [''--metrics-port-tls'']\<rparr>
               else c);
          c = addManagerLoggingOptions (specs w) cluster c
      in ensureCustomProbesConfiguration cluster c)"

definition ensureFailureThresholds :: "world \<Rightarrow> Cluster \<Rightarrow> Container \<Rightarrow> Container" where
  "ensureFailureThresholds w cluster c =
     (let c = (if Probe_FailureThreshold (Container_StartupProbe c) = 0
               then c\<lparr>Container_StartupProbe := (Container_StartupProbe c)
                      \<lparr>Probe_FailureThreshold :=
                         getFailureThreshold (go_unrepresentable w)
                           (GetMaxStartDelay (apiv1 w) cluster)
                           (Probe_PeriodSeconds (Container_StartupProbe c))\<rparr>\<rparr>
               else c);
          c = (if ClusterSpec_LivenessProbeTimeout (Cluster_Spec cluster) \<noteq> None
                  \<and> Probe_FailureThreshold (Container_LivenessProbe c) = 0
               then c\<lparr>Container_LivenessProbe := (Container_LivenessProbe c)
                      \<lparr>Probe_FailureThreshold :=
                         getFailureThreshold (go_unrepresentable w)
                           (the (ClusterSpec_LivenessProbeTimeout (Cluster_Spec cluster)))
                           (Probe_PeriodSeconds (Container_LivenessProbe c))\<rparr>\<rparr>
               else c)
      in c)"

definition createPostgresContainers ::
  "world \<Rightarrow> Cluster \<Rightarrow> EnvConfig \<Rightarrow> bool \<Rightarrow> Container list" where
  "createPostgresContainers w cluster envConfig enableHTTPS =
     [ensureFailureThresholds w cluster
        (configuredPostgresContainer w cluster envConfig enableHTTPS)]"

subsection \<open>The Pod specification\<close>

definition CreatePodSecurityContext ::
  "world \<Rightarrow> SeccompProfile option \<Rightarrow> int64 \<Rightarrow> int64 \<Rightarrow> PodSecurityContext option" where
  "CreatePodSecurityContext w seccompProfile user group' =
     (if HaveSecurityContextConstraints (utils w) then None
      else Some \<lparr>RunAsNonRoot = Some True,
                 RunAsUser = Some user,
                 RunAsGroup = Some group',
                 FSGroup = Some group',
                 PodSecurityContext_SeccompProfile = seccompProfile\<rparr>)"

definition createClusterPodSpec ::
  "world \<Rightarrow> string \<Rightarrow> Cluster \<Rightarrow> EnvConfig \<Rightarrow> int64 \<Rightarrow> bool \<Rightarrow> PodSpec" where
  "createClusterPodSpec w podName cluster envConfig gracePeriod enableHTTPS =
     \<lparr>PodSpec_Hostname = podName,
      PodSpec_InitContainers = [createBootstrapContainer (specs w) cluster],
      PodSpec_SchedulerName = ClusterSpec_SchedulerName (Cluster_Spec cluster),
      PodSpec_Containers = createPostgresContainers w cluster envConfig enableHTTPS,
      PodSpec_Volumes = createPostgresVolumes (specs w) cluster podName,
      PodSpec_SecurityContext =
        CreatePodSecurityContext w (GetSeccompProfile (apiv1 w) cluster)
          (GetPostgresUID (apiv1 w) cluster) (GetPostgresGID (apiv1 w) cluster),
      PodSpec_Affinity =
        CreateAffinitySection w (Cluster_Name cluster) (ClusterSpec_Affinity (Cluster_Spec cluster)),
      PodSpec_Tolerations = Tolerations (ClusterSpec_Affinity (Cluster_Spec cluster)),
      PodSpec_ServiceAccountName = Cluster_Name cluster,
      PodSpec_NodeSelector = NodeSelector (ClusterSpec_Affinity (Cluster_Spec cluster)),
      PodSpec_TerminationGracePeriodSeconds = Some gracePeriod,
      PodSpec_TopologySpreadConstraints =
        ClusterSpec_TopologySpreadConstraints (Cluster_Spec cluster),
      PodSpec_PriorityClassName = [],
      PodSpec_Subdomain = []\<rparr>"

text \<open>\<^verbatim>\<open>GetInstanceName\<close>: \<^verbatim>\<open>fmt.Sprintf("%s-%v", clusterName, nodeSerial)\<close>.\<close>

definition GetInstanceName :: "string \<Rightarrow> int \<Rightarrow> string" where
  "GetInstanceName clusterName nodeSerial = clusterName @ ''-'' @ Itoa nodeSerial"

subsection \<open>Building the instance and the extension pipeline\<close>

text \<open>
  The errors of \<^verbatim>\<open>buildInstance\<close> and \<^verbatim>\<open>NewInstance\<close>, one constructor for each
  \<^verbatim>\<open>fmt.Errorf\<close>, holding the error it wraps; \<open>Error\<close> is the message.
\<close>

datatype error =
    SerializeError go_error
  | PatchDecodeError go_error
  | PatchApplyError go_error
  | PatchDeserializeError go_error
  | HookInvocationError go_error
  | HookResponseTypeError

fun Error :: "error \<Rightarrow> string" where
  "Error (SerializeError e) = ''while serializing pod to JSON: '' @ e"
| "Error (PatchDecodeError e) = ''while decoding JSON patch from annotation: '' @ e"
| "Error (PatchApplyError e) = ''while applying JSON patch from annotation: '' @ e"
| "Error (PatchDeserializeError e) = ''while deserializing pod to JSON: '' @ e"
| "Error (HookInvocationError e) =
     ''while invoking the lifecycle instance evaluation hook: '' @ e"
| "Error HookResponseTypeError = ''while casting the clientObject to the pod type''"

text \<open>Reading a Go map of strings: an absent key, and any key of a nil map, reads as "".\<close>

definition lookup :: "(string \<rightharpoonup> string) \<Rightarrow> string \<Rightarrow> string" where
  "lookup m k = (case m k of None \<Rightarrow> [] | Some v \<Rightarrow> v)"

definition composedPod :: "world \<Rightarrow> Cluster \<Rightarrow> int \<Rightarrow> bool \<Rightarrow> Pod" where
  "composedPod w cluster nodeSerial tlsEnabled =
     (let podName = GetInstanceName (Cluster_Name cluster) nodeSerial;
          gracePeriod = scast (GetMaxStopDelay (apiv1 w) cluster);
          envConfig = CreatePodEnvConfig w cluster podName;
          podSpec = createClusterPodSpec w podName cluster envConfig gracePeriod tlsEnabled;
          pod = \<lparr>Pod_ObjectMeta =
                   \<lparr>ObjectMeta_Name = podName,
                    ObjectMeta_Namespace = Cluster_Namespace cluster,
                    ObjectMeta_Labels = Some
                      [ClusterLabelName (utils w) \<mapsto> Cluster_Name cluster,
                       InstanceNameLabelName (utils w) \<mapsto> podName,
                       PodRoleLabelName (utils w) \<mapsto> PodRoleInstance (utils w)],
                    ObjectMeta_Annotations = Some
                      [ClusterSerialAnnotationName (utils w) \<mapsto> Itoa nodeSerial,
                       PodEnvHashAnnotationName (utils w) \<mapsto> Hash envConfig]\<rparr>,
                  Pod_Spec = podSpec\<rparr>;
          pod = (if ClusterSpec_PriorityClassName (Cluster_Spec cluster) \<noteq> []
                 then pod\<lparr>Pod_Spec := (Pod_Spec pod)\<lparr>PodSpec_PriorityClassName :=
                        ClusterSpec_PriorityClassName (Cluster_Spec cluster)\<rparr>\<rparr>
                 else pod);
          pod = (if CreateAnyService (configuration_Current w)
                 then pod\<lparr>Pod_Spec := (Pod_Spec pod)\<lparr>PodSpec_Subdomain :=
                        GetServiceAnyName (apiv1 w) cluster\<rparr>\<rparr>
                 else pod);
          pod = (if IsAnnotationAppArmorPresent (utils w) (Pod_Spec pod)
                      (Cluster_Annotations cluster)
                 then (let (meta, spec) = AnnotateAppArmor (utils w) (Pod_ObjectMeta pod)
                                            (Pod_Spec pod) (Cluster_Annotations cluster)
                       in pod\<lparr>Pod_ObjectMeta := meta, Pod_Spec := spec\<rparr>)
                 else pod)
      in pod)"

text \<open>
  \<^verbatim>\<open>buildInstance\<close>: \<open>composedPod\<close> is its body before the patch, and the patch is
  applied when the annotation of the cluster is not empty.
\<close>

definition buildInstance :: "world \<Rightarrow> Cluster \<Rightarrow> int \<Rightarrow> bool \<Rightarrow> error + Pod" where
  "buildInstance w cluster nodeSerial tlsEnabled =
     (let pod = composedPod w cluster nodeSerial tlsEnabled;
          jsonPatch = lookup (Cluster_Annotations cluster) (PodPatchAnnotationName (utils w))
      in if jsonPatch \<noteq> []
         then (case json_Marshal_Pod (lib w) pod of
                 Inl err \<Rightarrow> Inl (SerializeError err)
               | Inr serializedObject \<Rightarrow>
                   (case jsonpatch_DecodePatch (lib w) jsonPatch of
                      Inl err \<Rightarrow> Inl (PatchDecodeError err)
                    | Inr patch \<Rightarrow>
                        (case jsonpatch_Apply (lib w) patch serializedObject of
                           Inl err \<Rightarrow> Inl (PatchApplyError err)
                         | Inr serializedObject \<Rightarrow>
                             (case json_Unmarshal_Pod (lib w) serializedObject pod of
                                Inl err \<Rightarrow> Inl (PatchDeserializeError err)
                              | Inr pod \<Rightarrow> Inr pod))))
         else Inr pod)"

text \<open>
  The lifecycle hook is a remote call: it answers with an object or with an error and
  leaves the Pod it was given as it is. The object it answers with is a pointer to a Pod
  (possibly a nil one) or something else.
\<close>

datatype ClientObject = PodObject "Pod option" | OtherObject

record PluginClient =
  LifecycleHook :: "string \<Rightarrow> Cluster \<Rightarrow> Pod \<Rightarrow> go_error + ClientObject"

record Context =
  GetPluginClientFromContext :: "PluginClient option"

text \<open>
  A call either returns or panics. \<^verbatim>\<open>NewInstance\<close> returns a pair in Go, here
  \<open>Inl\<close> of the error (with a nil Pod) or \<open>Inr\<close> of the Pod pointer (with a nil error).
\<close>

datatype 'a outcome = Panic | Return 'a

text \<open>
  The deferred function of \<^verbatim>\<open>NewInstance\<close>, run on the variable \<^verbatim>\<open>pod\<close> as it is
  when the function returns. It gives back the Pod behind that pointer. Assigning to an
  entry of a nil map panics.
\<close>

definition deferred :: "world \<Rightarrow> Pod option \<Rightarrow> Pod option outcome" where
  "deferred w pod =
     (case pod of
        None \<Rightarrow> Return None
      | Some p \<Rightarrow>
          (case json_Marshal_PodSpec (lib w) (Pod_Spec p) of
             Inl marshalErr \<Rightarrow> Return (Some p)
           | Inr podSpecMarshaled \<Rightarrow>
               (case ObjectMeta_Annotations (Pod_ObjectMeta p) of
                  None \<Rightarrow> Panic
                | Some annotations \<Rightarrow>
                    Return (Some (p\<lparr>Pod_ObjectMeta := (Pod_ObjectMeta p)
                      \<lparr>ObjectMeta_Annotations := Some
                         (annotations(PodSpecAnnotationName (utils w) \<mapsto>
                            podSpecMarshaled))\<rparr>\<rparr>)))))"

text \<open>
  \<^verbatim>\<open>NewInstance\<close>. The second component lists the calls of the lifecycle hook that
  the run made, with their arguments. Where the source returns \<^verbatim>\<open>pod\<close>, the caller
  receives the pointer that the deferred function writes through, so it sees the Pod
  that the deferred function leaves.
\<close>

definition NewInstance ::
  "world \<Rightarrow> Context \<Rightarrow> Cluster \<Rightarrow> int \<Rightarrow> bool
     \<Rightarrow> (error + Pod option) outcome \<times> (string \<times> Cluster \<times> Pod) list" where
  "NewInstance w ctx cluster nodeSerial tlsEnabled =
     (case buildInstance w cluster nodeSerial tlsEnabled of
        Inl err \<Rightarrow> (Return (Inl err), [])
      | Inr pod \<Rightarrow>
          (case GetPluginClientFromContext ctx of
             None \<Rightarrow>
               (case deferred w (Some pod) of
                  Panic \<Rightarrow> (Panic, [])
                | Return pod' \<Rightarrow> (Return (Inr pod'), []))
           | Some pluginClient \<Rightarrow>
               (let call = (OperationVerbEvaluate (plugin w), cluster, pod)
                in case LifecycleHook pluginClient (OperationVerbEvaluate (plugin w))
                          cluster pod of
                     Inl err \<Rightarrow>
                       (case deferred w (Some pod) of
                          Panic \<Rightarrow> (Panic, [call])
                        | Return _ \<Rightarrow> (Return (Inl (HookInvocationError err)), [call]))
                   | Inr (PodObject hookPod) \<Rightarrow>
                       (case deferred w hookPod of
                          Panic \<Rightarrow> (Panic, [call])
                        | Return pod' \<Rightarrow> (Return (Inr pod'), [call]))
                   | Inr OtherObject \<Rightarrow>
                       (case deferred w None of
                          Panic \<Rightarrow> (Panic, [call])
                        | Return _ \<Rightarrow> (Return (Inl HookResponseTypeError), [call])))))"

subsection \<open>A sample environment, cluster and hook\<close>

text \<open>
  Concrete values on which the theorems below are instantiated: an environment without
  the optional features, whose JSON encoder of a Pod specification lists the names of the
  containers, a cluster named \<open>pg\<close> with two declared variables, and a hook that adds a
  sidecar container.
\<close>

definition bootstrapContainer0 :: Container where
  "bootstrapContainer0 =
     \<lparr>Container_Name = ''bootstrap-controller'',
      Container_Image = ''operator'',
      Container_ImagePullPolicy = [],
      Container_Env = [],
      Container_EnvFrom = [],
      Container_VolumeMounts = [],
      Container_StartupProbe = \<lparr>Probe_HTTPGet = \<lparr>HTTPGetAction_Path = [],
          HTTPGetAction_Port = FromInt32 0, HTTPGetAction_Scheme = []\<rparr>,
        Probe_InitialDelaySeconds = 0, Probe_TimeoutSeconds = 0, Probe_PeriodSeconds = 0,
        Probe_SuccessThreshold = 0, Probe_FailureThreshold = 0,
        Probe_TerminationGracePeriodSeconds = None\<rparr>,
      Container_ReadinessProbe = \<lparr>Probe_HTTPGet = \<lparr>HTTPGetAction_Path = [],
          HTTPGetAction_Port = FromInt32 0, HTTPGetAction_Scheme = []\<rparr>,
        Probe_InitialDelaySeconds = 0, Probe_TimeoutSeconds = 0, Probe_PeriodSeconds = 0,
        Probe_SuccessThreshold = 0, Probe_FailureThreshold = 0,
        Probe_TerminationGracePeriodSeconds = None\<rparr>,
      Container_LivenessProbe = \<lparr>Probe_HTTPGet = \<lparr>HTTPGetAction_Path = [],
          HTTPGetAction_Port = FromInt32 0, HTTPGetAction_Scheme = []\<rparr>,
        Probe_InitialDelaySeconds = 0, Probe_TimeoutSeconds = 0, Probe_PeriodSeconds = 0,
        Probe_SuccessThreshold = 0, Probe_FailureThreshold = 0,
        Probe_TerminationGracePeriodSeconds = None\<rparr>,
      Container_Command = [''/manager'', ''bootstrap''],
      Container_Resources = \<lparr>ResourceRequirements_Limits = Map.empty,
                             ResourceRequirements_Requests = Map.empty\<rparr>,
      Container_Ports = [],
      Container_SecurityContext = None\<rparr>"

definition world0 :: world where
  "world0 =
     \<lparr>postgres = \<lparr>TemporaryDirectory = ''/run/tmp'', SocketDirectory = ''/run/socket'',
                   ServerPort = 5432\<rparr>,
      url = \<lparr>PathStartup = ''/startupz'', PathReady = ''/readyz'', PathHealth = ''/healthz'',
              StatusPort = 8000, PostgresMetricsPort = 9187\<rparr>,
      configuration_Current = \<lparr>StandbyTCPUserTimeout = 0, CreateAnyService = False\<rparr>,
      plugin = \<lparr>OperationVerbEvaluate = ''evaluate''\<rparr>,
      utils = \<lparr>ClusterLabelName = ''cnpg.io/cluster'',
                PodRoleLabelName = ''cnpg.io/podRole'',
                PodRoleInstance = ''instance'',
                InstanceNameLabelName = ''cnpg.io/instanceName'',
                ClusterSerialAnnotationName = ''cnpg.io/nodeSerial'',
                PodEnvHashAnnotationName = ''cnpg.io/podEnvHash'',
                PodSpecAnnotationName = ''cnpg.io/podSpec'',
                PodPatchAnnotationName = ''cnpg.io/podPatch'',
                HaveSecurityContextConstraints = False,
                IsAnnotationAppArmorPresent = (\<lambda>spec annotations. False),
                AnnotateAppArmor = (\<lambda>meta spec annotations. (meta, spec))\<rparr>,
      hash = \<lparr>ComputeHash = (\<lambda>config. (''hash'', None))\<rparr>,
      apiv1 = \<lparr>GetMaxStartDelay = (\<lambda>cluster. 3600),
                GetMaxStopDelay = (\<lambda>cluster. 1800),
                GetSeccompProfile = (\<lambda>cluster. None),
                GetPostgresUID = (\<lambda>cluster. 26),
                GetPostgresGID = (\<lambda>cluster. 26),
                IsMetricsTLSEnabled = (\<lambda>cluster. False),
                GetServiceAnyName = (\<lambda>cluster. Cluster_Name cluster @ ''-any'')\<rparr>,
      specs = \<lparr>createBootstrapContainer = (\<lambda>cluster. bootstrapContainer0),
                createPostgresVolumes = (\<lambda>cluster podName. []),
                CreatePostgresVolumeMounts = (\<lambda>cluster. []),
                CreateContainerSecurityContext = (\<lambda>seccompProfile. None),
                addManagerLoggingOptions = (\<lambda>cluster container. container)\<rparr>,
      lib = \<lparr>json_Marshal_Pod = (\<lambda>pod. Inr (ObjectMeta_Name (Pod_ObjectMeta pod))),
              json_Marshal_PodSpec =
                (\<lambda>spec. Inr (concat (map Container_Name (PodSpec_Containers spec)))),
              json_Unmarshal_Pod = (\<lambda>doc pod. Inr pod),
              jsonpatch_DecodePatch = (\<lambda>text. if text = ''[]'' then Inr [] else Inl ''invalid''),
              jsonpatch_Apply = (\<lambda>patch doc. Inr doc),
              path_Join = (\<lambda>dir file. dir @ ''/'' @ file)\<rparr>,
      go_unrepresentable = (\<lambda>f. - (2 ^ 31))\<rparr>"

definition affinity0 :: AffinityConfiguration where
  "affinity0 =
     \<lparr>EnablePodAntiAffinity = None,
      TopologyKey = [],
      NodeSelector = Map.empty,
      NodeAffinity = None,
      Tolerations = [],
      PodAntiAffinityType = [],
      AdditionalPodAntiAffinity = None,
      AdditionalPodAffinity = None\<rparr>"

definition cluster0 :: Cluster where
  "cluster0 =
     \<lparr>Cluster_Name = ''pg'',
      Cluster_Namespace = ''default'',
      Cluster_Annotations = Map.empty,
      Cluster_Spec =
        \<lparr>ClusterSpec_Env =
           [\<lparr>EnvVar_Name = ''A'', EnvVar_Value = ''1'', EnvVar_ValueFrom = None\<rparr>,
            \<lparr>EnvVar_Name = ''B'', EnvVar_Value = ''2'', EnvVar_ValueFrom = None\<rparr>],
         ClusterSpec_EnvFrom = [],
         ClusterSpec_SchedulerName = [],
         ClusterSpec_ImagePullPolicy = [],
         ClusterSpec_Resources = \<lparr>ResourceRequirements_Limits = Map.empty,
                                   ResourceRequirements_Requests = Map.empty\<rparr>,
         ClusterSpec_Affinity = affinity0,
         ClusterSpec_TopologySpreadConstraints = [],
         ClusterSpec_PriorityClassName = [],
         ClusterSpec_Probes = None,
         ClusterSpec_LivenessProbeTimeout = None\<rparr>,
      Cluster_Status = \<lparr>ClusterStatus_Image = ''postgresql:17''\<rparr>\<rparr>"

text \<open>The same cluster with a pod-patch annotation.\<close>

definition patched :: "string \<Rightarrow> Cluster" where
  "patched text = cluster0\<lparr>Cluster_Annotations := [''cnpg.io/podPatch'' \<mapsto> text]\<rparr>"

text \<open>A hook that answers with the Pod it was given and one more container.\<close>

definition addSidecar :: "Pod \<Rightarrow> Pod" where
  "addSidecar pod =
     pod\<lparr>Pod_Spec := (Pod_Spec pod)\<lparr>PodSpec_Containers :=
       PodSpec_Containers (Pod_Spec pod) @ [bootstrapContainer0\<lparr>Container_Name := ''+sidecar''\<rparr>]\<rparr>\<rparr>"

definition sidecarHook :: Context where
  "sidecarHook =
     \<lparr>GetPluginClientFromContext = Some
        \<lparr>LifecycleHook = (\<lambda>verb cluster pod. Inr (PodObject (Some (addSidecar pod))))\<rparr>\<rparr>"

definition failingHook :: Context where
  "failingHook =
     \<lparr>GetPluginClientFromContext = Some
        \<lparr>LifecycleHook = (\<lambda>verb cluster pod. Inl ''unavailable'')\<rparr>\<rparr>"

definition wrongShapeHook :: Context where
  "wrongShapeHook =
     \<lparr>GetPluginClientFromContext = Some
        \<lparr>LifecycleHook = (\<lambda>verb cluster pod. Inr OtherObject)\<rparr>\<rparr>"

definition noClient :: Context where
  "noClient = \<lparr>GetPluginClientFromContext = None\<rparr>"

text \<open>What a caller reads from a result: the Pod, and its self-annotation.\<close>

definition returnedPod :: "(error + Pod option) outcome \<Rightarrow> Pod option" where
  "returnedPod r = (case r of Return (Inr pod) \<Rightarrow> pod | _ \<Rightarrow> None)"

definition annotation :: "Pod \<Rightarrow> string \<Rightarrow> string option" where
  "annotation pod k =
     (case ObjectMeta_Annotations (Pod_ObjectMeta pod) of None \<Rightarrow> None | Some m \<Rightarrow> m k)"

text \<open>
  The anti-affinity terms that \<^verbatim>\<open>CreateGeneratedAntiAffinity\<close> produced: none when it
  returned nil.
\<close>

definition generatedRequired ::
  "world \<Rightarrow> string \<Rightarrow> AffinityConfiguration \<Rightarrow> PodAffinityTerm list" where
  "generatedRequired w clusterName config =
     (case CreateGeneratedAntiAffinity w clusterName config of
        None \<Rightarrow> []
      | Some a \<Rightarrow> (case Affinity_PodAntiAffinity a of
                    None \<Rightarrow> []
                  | Some anti \<Rightarrow> RequiredDuringSchedulingIgnoredDuringExecution anti))"

definition generatedPreferred ::
  "world \<Rightarrow> string \<Rightarrow> AffinityConfiguration \<Rightarrow> WeightedPodAffinityTerm list" where
  "generatedPreferred w clusterName config =
     (case CreateGeneratedAntiAffinity w clusterName config of
        None \<Rightarrow> []
      | Some a \<Rightarrow> (case Affinity_PodAntiAffinity a of
                    None \<Rightarrow> []
                  | Some anti \<Rightarrow> PreferredDuringSchedulingIgnoredDuringExecution anti))"

text \<open>Sample extensions of an affinity configuration.\<close>

definition nodeAffinity0 :: NodeAffinity where
  "nodeAffinity0 =
     \<lparr>NodeAffinity_Required = Some
        [\<lparr>NodeSelectorTerm_MatchExpressions =
            [\<lparr>LabelSelectorRequirement_Key = ''disk'',
              LabelSelectorRequirement_Operator = ''In'',
              LabelSelectorRequirement_Values = [''ssd'']\<rparr>],
          NodeSelectorTerm_MatchFields = []\<rparr>],
      NodeAffinity_Preferred = []\<rparr>"

definition userTerm :: "string \<Rightarrow> PodAffinityTerm" where
  "userTerm app =
     \<lparr>PodAffinityTerm_LabelSelector = Some
        \<lparr>LabelSelector_MatchLabels = [''app'' \<mapsto> app],
         LabelSelector_MatchExpressions = []\<rparr>,
      PodAffinityTerm_Namespaces = [],
      PodAffinityTerm_TopologyKey = ''topology.kubernetes.io/zone'',
      PodAffinityTerm_NamespaceSelector = None\<rparr>"

definition podAffinity0 :: PodAffinity where
  "podAffinity0 = \<lparr>PodAffinity_Required = [userTerm ''cache''], PodAffinity_Preferred = []\<rparr>"

definition podAntiAffinity0 :: PodAntiAffinity where
  "podAntiAffinity0 =
     \<lparr>RequiredDuringSchedulingIgnoredDuringExecution = [userTerm ''batch''],
      PreferredDuringSchedulingIgnoredDuringExecution =
        [\<lparr>WeightedPodAffinityTerm_Weight = 50,
          WeightedPodAffinityTerm_PodAffinityTerm = userTerm ''web''\<rparr>]\<rparr>"

definition envA :: EnvVar where
  "envA = \<lparr>EnvVar_Name = ''A'', EnvVar_Value = ''1'', EnvVar_ValueFrom = None\<rparr>"

definition envB :: EnvVar where
  "envB = \<lparr>EnvVar_Name = ''B'', EnvVar_Value = ''2'', EnvVar_ValueFrom = None\<rparr>"

definition sourceA :: EnvFromSource where
  "sourceA = \<lparr>EnvFromSource_Prefix = [], EnvFromSource_ConfigMapRef = Some (''settings'', None),
               EnvFromSource_SecretRef = None\<rparr>"

definition sourceB :: EnvFromSource where
  "sourceB = \<lparr>EnvFromSource_Prefix = [], EnvFromSource_ConfigMapRef = None,
               EnvFromSource_SecretRef = Some (''credentials'', None)\<rparr>"

definition affinityExtended :: AffinityConfiguration where
  "affinityExtended =
     affinity0\<lparr>PodAntiAffinityType := ''required'',
               NodeAffinity := Some nodeAffinity0,
               AdditionalPodAntiAffinity := Some podAntiAffinity0,
               AdditionalPodAffinity := Some podAffinity0\<rparr>"

text \<open>Environments whose JSON-patch library or JSON decoder fails.\<close>

definition world_apply_fails :: world where
  "world_apply_fails =
     world0\<lparr>lib := (lib world0)\<lparr>jsonpatch_Apply := (\<lambda>patch doc. Inl ''test failed'')\<rparr>\<rparr>"

definition world_unmarshal_fails :: world where
  "world_unmarshal_fails =
     world0\<lparr>lib := (lib world0)\<lparr>json_Unmarshal_Pod :=
       (\<lambda>doc pod. Inl ''cannot unmarshal'')\<rparr>\<rparr>"

text \<open>The pod patch that sets the annotation map of the Pod to null.\<close>

definition nullAnnotationsPatch :: string where
  \<open>nullAnnotationsPatch = ''[{"op":"add","path":"/metadata/annotations","value":null}]''\<close>

text \<open>
  An environment whose JSON-patch library decodes this patch as well. Applying it records
  in the document that the annotations are null, and the decoder then sets the annotation
  map of the Pod it decodes into to nil, as \<^verbatim>\<open>json.Unmarshal\<close> does for a null map. Any
  other document is decoded as in the sample environment.
\<close>

definition world_null_patch :: world where
  "world_null_patch =
     world0\<lparr>lib := (lib world0)
       \<lparr>jsonpatch_DecodePatch := (\<lambda>text.
          if text = nullAnnotationsPatch
          then Inr [[''op'' \<mapsto> ''add'', ''path'' \<mapsto> ''/metadata/annotations'',
                     ''value'' \<mapsto> ''null'']]
          else jsonpatch_DecodePatch (lib world0) text),
        jsonpatch_Apply := (\<lambda>patch doc.
          if map (\<lambda>operation. (operation ''op'', operation ''path'', operation ''value'')) patch =
               [(Some ''add'', Some ''/metadata/annotations'', Some ''null'')]
          then Inr (doc @ '' annotations:null'')
          else Inr doc),
        json_Unmarshal_Pod := (\<lambda>doc pod.
          if drop (length doc - 17) doc = '' annotations:null''
          then Inr (pod\<lparr>Pod_ObjectMeta :=
                 (Pod_ObjectMeta pod)\<lparr>ObjectMeta_Annotations := None\<rparr>\<rparr>)
          else Inr pod)\<rparr>\<rparr>"

text \<open>An environment in which the sandboxing annotations are present and applied.\<close>

definition world_apparmor :: world where
  "world_apparmor =
     world0\<lparr>utils := (utils world0)
       \<lparr>IsAnnotationAppArmorPresent := (\<lambda>spec annotations. True),
        AnnotateAppArmor := (\<lambda>meta spec annotations.
          (meta\<lparr>ObjectMeta_Annotations := Some
             ((case ObjectMeta_Annotations meta of None \<Rightarrow> Map.empty | Some m \<Rightarrow> m)
                (''container.apparmor.security.beta.kubernetes.io/postgres'' \<mapsto>
                   ''runtime/default''))\<rparr>, spec))\<rparr>\<rparr>"

text \<open>A Pod with one more annotation, for a Pod that has an annotation map.\<close>

definition withAnnotation :: "Pod \<Rightarrow> string \<Rightarrow> string \<Rightarrow> Pod" where
  "withAnnotation pod k v =
     pod\<lparr>Pod_ObjectMeta := (Pod_ObjectMeta pod)\<lparr>ObjectMeta_Annotations :=
       Some ((the (ObjectMeta_Annotations (Pod_ObjectMeta pod)))(k \<mapsto> v))\<rparr>\<rparr>"

section \<open>Verification\<close>

subsection \<open>The rounded quotient and its ceiling\<close>

text \<open>
  The quotient of two positive \<^verbatim>\<open>int32\<close> is rounded to 53 bits before \<^verbatim>\<open>math.Ceil\<close>
  sees it. The rounding error is at most half a unit in the last place, which is less than
  the distance \<open>1/p\<close> that separates a quotient \<open>d/p\<close> from the next integer, and an
  integer quotient is not rounded at all: the ceiling of the rounded quotient is the
  ceiling of the exact one.
\<close>

lemma round_half_even_error: "\<bar>of_int (round_half_even y) - y\<bar> \<le> 1 / 2"
proof -
  have "of_int \<lfloor>y\<rfloor> \<le> y" "y < of_int \<lfloor>y\<rfloor> + 1" by linarith+
  then show ?thesis
    by (auto simp: round_half_even_def Let_def)
qed

lemma round_half_even_of_int: "round_half_even (of_int n) = n"
  by (simp add: round_half_even_def)

lemma exponent_le: 
  assumes "0 < x" shows "2 powi exponent x \<le> x"
proof -
  obtain a b where q: "quotient_of x = (a, b)" by (cases "quotient_of x")
  have b: "0 < b" using q by (rule quotient_of_denom_pos)
  have x: "x = of_int a / of_int b" using q by (rule quotient_of_div)
  have a: "0 < a" using assms b x by (simp add: zero_less_divide_iff)
  define c where "c = bitlen a - bitlen b"
  show ?thesis
  proof (cases "2 powi c \<le> x")
    case True
    then show ?thesis by (simp add: exponent_def q c_def)
  next
    case False
    then have e: "exponent x = c - 1" by (simp add: exponent_def q c_def)
    have la: "1 \<le> bitlen a" using a by (simp add: bitlen_alt_def) 
    have lb: "1 \<le> bitlen b" using b by (simp add: bitlen_alt_def)
    have a0: "(2::int) ^ nat (bitlen a - 1) \<le> a" using bitlen_bounds[OF a] by simp
    have b0: "b < (2::int) ^ nat (bitlen b)" using bitlen_bounds[OF b] by simp
    have a1: "(2::rat) powi (bitlen a - 1) \<le> of_int a"
    proof -
      have "(of_int ((2::int) ^ nat (bitlen a - 1)) :: rat) \<le> of_int a" using a0 by (simp only: of_int_le_iff)
      moreover have "(2::rat) powi (bitlen a - 1) = 2 ^ nat (bitlen a - 1)" using la by (simp add: power_int_def)
      ultimately show ?thesis by simp
    qed
    have b1: "of_int b \<le> (2::rat) powi (bitlen b)"
    proof -
      have "(of_int b :: rat) \<le> of_int ((2::int) ^ nat (bitlen b))" using b0 by (simp only: of_int_le_iff)
      moreover have "(2::rat) powi (bitlen b) = 2 ^ nat (bitlen b)" using lb by (simp add: power_int_def)
      ultimately show ?thesis by simp
    qed
    have "(2::rat) powi (c - 1) = 2 powi (bitlen a - 1) / 2 powi (bitlen b)"
      by (simp add: c_def power_int_diff)
    also have "\<dots> \<le> of_int a / 2 powi (bitlen b)"
      using a1 by (simp add: divide_right_mono)
    also have "\<dots> \<le> of_int a / of_int b"
      using b1 a b by (simp add: frac_le)
    finally show ?thesis using e x by simp
  qed
qed


lemma exponent_upper:
  assumes "0 < x" shows "x < 2 powi (exponent x + 1)"
proof -
  obtain a b where q: "quotient_of x = (a, b)" by (cases "quotient_of x")
  have b: "0 < b" using q by (rule quotient_of_denom_pos)
  have x: "x = of_int a / of_int b" using q by (rule quotient_of_div)
  have a: "0 < a" using assms b x by (simp add: zero_less_divide_iff)
  define c where "c = bitlen a - bitlen b"
  show ?thesis
  proof (cases "2 powi c \<le> x")
    case False
    then have "exponent x = c - 1" by (simp add: exponent_def q c_def)
    then show ?thesis using False by simp
  next
    case True
    then have e: "exponent x = c" by (simp add: exponent_def q c_def)
    have la: "1 \<le> bitlen a" using a by (simp add: bitlen_alt_def)
    have lb: "1 \<le> bitlen b" using b by (simp add: bitlen_alt_def)
    have a0: "a < (2::int) ^ nat (bitlen a)" using bitlen_bounds[OF a] by simp
    have b0: "(2::int) ^ nat (bitlen b - 1) \<le> b" using bitlen_bounds[OF b] by simp
    have a1: "of_int a < (2::rat) powi (bitlen a)"
    proof -
      have "(of_int a :: rat) < of_int ((2::int) ^ nat (bitlen a))" using a0 by (simp only: of_int_less_iff)
      moreover have "(2::rat) powi (bitlen a) = 2 ^ nat (bitlen a)" using la by (simp add: power_int_def)
      ultimately show ?thesis by simp
    qed
    have b1: "(2::rat) powi (bitlen b - 1) \<le> of_int b"
    proof -
      have "(of_int ((2::int) ^ nat (bitlen b - 1)) :: rat) \<le> of_int b" using b0 by (simp only: of_int_le_iff)
      moreover have "(2::rat) powi (bitlen b - 1) = 2 ^ nat (bitlen b - 1)" using lb by (simp add: power_int_def)
      ultimately show ?thesis by simp
    qed
    have pb: "(0::rat) < 2 powi (bitlen b - 1)" by simp
    have "of_int a / of_int b \<le> of_int a / (2::rat) powi (bitlen b - 1)"
      using b1 a pb by (simp add: frac_le)
    also have "\<dots> < 2 powi (bitlen a) / (2::rat) powi (bitlen b - 1)"
      using a1 pb by (simp only: divide_strict_right_mono)
    also have "\<dots> = 2 powi (c + 1)"
      by (simp add: c_def power_int_diff power_int_add)
    finally show ?thesis using e x by simp
  qed
qed

lemma exponent_less_31:
  assumes "0 < x" "x < 2 ^ 31" shows "exponent x < 31"
proof -
  have "(2::rat) powi exponent x \<le> x" using assms(1) by (rule exponent_le)
  then have "(2::rat) powi exponent x < 2 powi 31" using assms(2) by simp
  then show ?thesis using power_int_le_imp_less_exp [of "2::rat" "exponent x" 31] by simp
qed

lemma round64_error:
  assumes "0 < x" shows "\<bar>round64 x - x\<bar> \<le> 2 powi (exponent x - 53)"
proof -
  define u :: rat where "u = 2 powi (exponent x - 52)"
  have u: "0 < u" by (simp add: u_def)
  have r: "round64 x = of_int (round_half_even (x / u)) * u"
    using assms by (simp add: round64_def u_def Let_def)
  have "\<bar>of_int (round_half_even (x / u)) - x / u\<bar> \<le> 1 / 2" by (rule round_half_even_error)
  then have "\<bar>of_int (round_half_even (x / u)) - x / u\<bar> * u \<le> 1 / 2 * u"
    using u by (simp only: mult_le_cancel_right) simp
  moreover have "\<bar>of_int (round_half_even (x / u)) - x / u\<bar> * u = \<bar>round64 x - x\<bar>"
  proof -
    have "(of_int (round_half_even (x / u)) - x / u) * u = round64 x - x"
      using u by (simp add: r left_diff_distrib)
    then have "\<bar>round64 x - x\<bar> = \<bar>of_int (round_half_even (x / u)) - x / u\<bar> * \<bar>u\<bar>"
      by (simp only: abs_mult[symmetric])
    then show ?thesis using u by simp
  qed
  moreover have "1 / 2 * u = 2 powi (exponent x - 53)"
    by (simp add: u_def power_int_diff)
  ultimately show ?thesis by simp
qed

lemma round64_of_int:
  assumes "0 < k" "k < 2 ^ 31" shows "round64 (of_int k) = of_int k"
proof -
  define x :: rat where "x = of_int k"
  have x: "0 < x" "x < 2 ^ 31" using assms by (simp_all add: x_def)
  have e: "exponent x < 31" using x by (rule exponent_less_31)
  define n where "n = nat (52 - exponent x)"
  have u: "(2::rat) powi (exponent x - 52) = 1 / 2 ^ n"
    using e by (simp add: n_def power_int_def power_one_over)
  have "x / (1 / 2 ^ n) = of_int (k * 2 ^ n)" by (simp add: x_def)
  then have "round_half_even (x / (1 / 2 ^ n)) = k * 2 ^ n"
    by (simp only: round_half_even_of_int)
  then have "round64 x = of_int (k * 2 ^ n) * (1 / 2 ^ n)"
    using x by (simp add: round64_def Let_def u)
  then show ?thesis by (simp add: x_def)
qed


lemma ceiling_round64_quotient:
  assumes p: "0 < p" and pd: "p < d" and d: "d < 2 ^ 31"
  shows "\<lceil>round64 (of_int d / of_int p)\<rceil> = \<lceil>(of_int d / of_int p :: rat)\<rceil>"
proof -
  define x :: rat where "x = of_int d / of_int p"
  define k where "k = \<lceil>x\<rceil>"
  have p': "(0::rat) < of_int p" using p by simp
  have x0: "0 < x" using p pd by (simp add: x_def)
  have xd: "x * of_int p = of_int d" using p by (simp add: x_def)
  have "(of_int d :: rat) < of_int (2 ^ 31)" using d by (simp only: of_int_less_iff)
  then have d': "(of_int d :: rat) < 2 ^ 31" by simp
  have "x \<le> of_int d" using p pd p' by (simp add: x_def divide_le_eq)
  then have x31: "x < 2 ^ 31" using d' by simp
  show ?thesis
  proof (cases "x = of_int k")
    case True
    have "0 < k" using x0 True by simp
    moreover have "k < 2 ^ 31"
    proof -
      have "(of_int k :: rat) < of_int (2 ^ 31)" using x31 True by simp
      then show ?thesis by (simp only: of_int_less_iff)
    qed
    ultimately have "round64 (of_int k) = of_int k" by (rule round64_of_int)
    then have "round64 x = x" by (simp only: True)
    then have "\<lceil>round64 x\<rceil> = \<lceil>x\<rceil>" by simp
    then show ?thesis unfolding x_def .
  next
    case False
    have "x \<le> of_int k" by (simp add: k_def)
    then have k2: "x < of_int k" using False by simp
    have k1: "of_int k - 1 < x" unfolding k_def by linarith
    have lo: "of_int k - 1 + 1 / of_int p \<le> x"
    proof -
      have "(of_int k - 1) * of_int p < x * of_int p"
        using k1 p' by (rule mult_strict_right_mono)
      then have "(of_int ((k - 1) * p) :: rat) < of_int d" by (simp add: xd)
      then have "(k - 1) * p < d" by (simp only: of_int_less_iff)
      then have "(k - 1) * p + 1 \<le> d" by simp
      then have "(of_int ((k - 1) * p + 1) :: rat) \<le> of_int d" by (simp only: of_int_le_iff)
      then have "(of_int k - 1) * of_int p + 1 \<le> x * of_int p" by (simp add: xd)
      then show ?thesis using p' by (simp add: field_simps)
    qed
    have hi: "x + 1 / of_int p \<le> of_int k"
    proof -
      have "x * of_int p < of_int k * of_int p"
        using k2 p' by (rule mult_strict_right_mono)
      then have "(of_int d :: rat) < of_int (k * p)" by (simp add: xd)
      then have "d < k * p" by (simp only: of_int_less_iff)
      then have "d + 1 \<le> k * p" by simp
      then have "(of_int (d + 1) :: rat) \<le> of_int (k * p)" by (simp only: of_int_le_iff)
      then have "x * of_int p + 1 \<le> of_int k * of_int p" by (simp add: xd)
      then show ?thesis using p' by (simp add: field_simps)
    qed
    have err: "\<bar>round64 x - x\<bar> \<le> 2 powi (exponent x - 53)" using x0 by (rule round64_error)
    have small: "(2::rat) powi (exponent x - 53) < 1 / of_int p"
    proof -
      define E :: rat where "E = 2 powi exponent x"
      have "E \<le> x" unfolding E_def using x0 by (rule exponent_le)
      then have "E * of_int p \<le> x * of_int p"
        using p' by (simp only: mult_le_cancel_right) simp
      also have "\<dots> < 2 ^ 31" using d' by (simp add: xd)
      also have "\<dots> < (2::rat) ^ 53" by simp
      finally have "E * of_int p < 2 ^ 53" .
      then have "E / 2 ^ 53 < 1 / of_int p" using p' by (simp add: field_simps)
      moreover have "(2::rat) powi (exponent x - 53) = E / 2 ^ 53"
        by (simp add: E_def power_int_diff)
      ultimately show ?thesis by simp
    qed
    have "of_int k - 1 < round64 x" "round64 x < of_int k"
      using err small lo hi by linarith+
    then have "\<lceil>round64 x\<rceil> = k" by (simp add: ceiling_unique)
    then have "\<lceil>round64 x\<rceil> = \<lceil>x\<rceil>" by (simp only: k_def)
    then show ?thesis unfolding x_def .
  qed
qed


lemma ceiling_quotient_bounds:
  assumes p: "0 < p" and pd: "p < d"
  shows "1 < \<lceil>(of_int d / of_int p :: rat)\<rceil>" "\<lceil>(of_int d / of_int p :: rat)\<rceil> \<le> d"
proof -
  have p': "(0::rat) < of_int p" using p by simp
  have "(1::rat) < of_int d / of_int p" using p pd by simp
  then show "1 < \<lceil>(of_int d / of_int p :: rat)\<rceil>" by (simp add: less_ceiling_iff)
  have "(of_int d / of_int p :: rat) \<le> of_int d" using p pd p' by (simp add: divide_le_eq)
  then show "\<lceil>(of_int d / of_int p :: rat)\<rceil> \<le> d" by (simp add: ceiling_le_iff)
qed

lemma sint_getFailureThreshold:
  assumes d: "0 <s d" and p: "0 <s p"
  shows "sint (getFailureThreshold unrep d p) =
           (if sint d \<le> sint p then 1 else \<lceil>(of_int (sint d) / of_int (sint p) :: rat)\<rceil>)"
proof (cases "sint d \<le> sint p")
  case True
  then show ?thesis by (simp add: getFailureThreshold_def word_sle_eq)
next
  case False
  define q :: rat where "q = of_int (sint d) / of_int (sint p)"
  define k where "k = \<lceil>q\<rceil>"
  have p0: "0 < sint p" using p by (simp add: word_sless_alt)
  have pd: "sint p < sint d" using False by simp
  have d31: "sint d < 2 ^ 31" using sint_lt [of d] by simp
  have c: "\<lceil>round64 q\<rceil> = k"
    unfolding k_def q_def using p0 pd d31 by (rule ceiling_round64_quotient)
  have k1: "1 < k" and kd: "k \<le> sint d"
    unfolding k_def q_def using p0 pd by (rule ceiling_quotient_bounds)+
  have t: "trunc_zero (of_int k) = k" using k1 by (simp add: trunc_zero_def)
  have r: "- (2 ^ 31) \<le> k" "k < 2 ^ 31" using k1 kd d31 by simp_all
  have "float64_div (sint d) (sint p) = Finite (round64 q)"
    using p0 by (simp add: float64_div_def q_def)
  then have "math_Ceil (float64_div (sint d) (sint p)) = Finite (of_int k)"
    by (simp add: c)
  moreover have "int32_of_float64 unrep (Finite (of_int k)) = word_of_int k"
    using r by (simp only: int32_of_float64.simps t) simp
  moreover have "\<not> d \<le>s p" using False by (simp add: word_sle_eq)
  ultimately have "getFailureThreshold unrep d p = word_of_int k"
    by (simp only: getFailureThreshold_def if_False)
  moreover have "sint (word_of_int k :: int32) = k"
    using r by (simp add: sint_sbintrunc' signed_take_bit_int_eq_self)
  ultimately show ?thesis using False by (simp add: k_def q_def)
qed


lemma getFailureThreshold_least:
  assumes "0 <s d" "0 <s p"
  shows "sint d \<le> sint (getFailureThreshold unrep d p) * sint p
     \<and> 1 \<le> sint (getFailureThreshold unrep d p)
     \<and> (\<forall>n. sint d \<le> n * sint p \<and> 1 \<le> n \<longrightarrow> sint (getFailureThreshold unrep d p) \<le> n)"
proof -
  have p0: "0 < sint p" and d0: "0 < sint d" using assms by (simp_all add: word_sless_alt)
  have s: "sint (getFailureThreshold unrep d p) =
           (if sint d \<le> sint p then 1 else \<lceil>(of_int (sint d) / of_int (sint p) :: rat)\<rceil>)"
    using assms by (rule sint_getFailureThreshold)
  show ?thesis
  proof (cases "sint d \<le> sint p")
    case True
    then show ?thesis using s by simp
  next
    case False
    define k where "k = \<lceil>(of_int (sint d) / of_int (sint p) :: rat)\<rceil>"
    have k: "sint (getFailureThreshold unrep d p) = k" using s False by (simp add: k_def)
    have p': "(0::rat) < of_int (sint p)" using p0 by (simp only: of_int_0_less_iff)
    have "(of_int (sint d) / of_int (sint p) :: rat) \<le> of_int k" unfolding k_def by (rule le_of_int_ceiling)
    then have "(of_int (sint d) :: rat) \<le> of_int k * of_int (sint p)" using p' by (simp only: pos_divide_le_eq)
    then have "(of_int (sint d) :: rat) \<le> of_int (k * sint p)" by simp
    then have a: "sint d \<le> k * sint p" by (simp only: of_int_le_iff)
    have b: "1 \<le> k" using a d0 p0 by (smt (verit) mult_le_0_iff)
    have c: "k \<le> n" if n: "sint d \<le> n * sint p" for n
    proof -
      have "(of_int (sint d) :: rat) \<le> of_int (n * sint p)" using n by (simp only: of_int_le_iff)
      then have "(of_int (sint d) :: rat) \<le> of_int n * of_int (sint p)" by simp
      then have "(of_int (sint d) / of_int (sint p) :: rat) \<le> of_int n" using p' by (simp only: pos_divide_le_eq)
      then show ?thesis unfolding k_def by (simp only: ceiling_le_iff)
    qed
    show ?thesis using a b c k by simp
  qed
qed


lemma ensureFailureThresholds_startup:
  "Probe_FailureThreshold (Container_StartupProbe (ensureFailureThresholds w cluster c)) =
     (if Probe_FailureThreshold (Container_StartupProbe c) = 0
      then getFailureThreshold (go_unrepresentable w) (GetMaxStartDelay (apiv1 w) cluster)
             (Probe_PeriodSeconds (Container_StartupProbe c))
      else Probe_FailureThreshold (Container_StartupProbe c))"
  by (simp add: ensureFailureThresholds_def Let_def)

lemma ensureFailureThresholds_liveness:
  "Probe_FailureThreshold (Container_LivenessProbe (ensureFailureThresholds w cluster c)) =
     (case ClusterSpec_LivenessProbeTimeout (Cluster_Spec cluster) of
        None \<Rightarrow> Probe_FailureThreshold (Container_LivenessProbe c)
      | Some timeout \<Rightarrow>
          if Probe_FailureThreshold (Container_LivenessProbe c) = 0
          then getFailureThreshold (go_unrepresentable w) timeout
                 (Probe_PeriodSeconds (Container_LivenessProbe c))
          else Probe_FailureThreshold (Container_LivenessProbe c))"
  by (simp add: ensureFailureThresholds_def Let_def split: option.splits)

lemma ensureFailureThresholds_readiness:
  "Container_ReadinessProbe (ensureFailureThresholds w cluster c) = Container_ReadinessProbe c"
  by (simp add: ensureFailureThresholds_def Let_def)

lemma configuredPostgresContainer_sample:
  "Probe_FailureThreshold (Container_StartupProbe (configuredPostgresContainer world0 cluster0
      (CreatePodEnvConfig world0 cluster0 ''pg-1'') True)) = 0"
  "Probe_PeriodSeconds (Container_StartupProbe (configuredPostgresContainer world0 cluster0
      (CreatePodEnvConfig world0 cluster0 ''pg-1'') True)) = 10"
  by (simp_all add: configuredPostgresContainer_def postgresContainer_def world0_def cluster0_def
      ensureCustomProbesConfiguration_def defaultProbe_def setScheme_def StartupProbePeriod_def Let_def)

subsection \<open>The environment configuration\<close>

lemma EqualFunc_DeepEqual: "EqualFunc xs ys (\<lambda>e1 e2. DeepEqual e1 e2) \<longleftrightarrow> xs = ys"
proof (induction xs arbitrary: ys)
  case Nil
  then show ?case by (cases ys) simp_all
next
  case (Cons x xs)
  then show ?case by (cases ys) (simp_all add: DeepEqual_def)
qed

subsection \<open>The affinity section\<close>

lemma CreateGeneratedAntiAffinity_disabled:
  "EnablePodAntiAffinity config = Some False \<Longrightarrow> CreateGeneratedAntiAffinity w n config = None"
  by (simp add: CreateGeneratedAntiAffinity_def)

lemma CreateGeneratedAntiAffinity_required:
  "EnablePodAntiAffinity config \<noteq> Some False \<Longrightarrow>
   PodAntiAffinityType config = ''required'' \<Longrightarrow>
   CreateGeneratedAntiAffinity w n config = Some
     \<lparr>Affinity_NodeAffinity = None, Affinity_PodAffinity = None,
      Affinity_PodAntiAffinity = Some
        \<lparr>RequiredDuringSchedulingIgnoredDuringExecution =
           [podAffinityTerm w n (if TopologyKey config = [] then ''kubernetes.io/hostname''
                                 else TopologyKey config)],
         PreferredDuringSchedulingIgnoredDuringExecution = []\<rparr>\<rparr>"
  by (cases "EnablePodAntiAffinity config")
    (simp_all add: CreateGeneratedAntiAffinity_def PodAntiAffinityTypeRequired_def Let_def)

lemma CreateGeneratedAntiAffinity_preferred:
  "EnablePodAntiAffinity config \<noteq> Some False \<Longrightarrow>
   PodAntiAffinityType config = ''preferred'' \<Longrightarrow>
   CreateGeneratedAntiAffinity w n config = Some
     \<lparr>Affinity_NodeAffinity = None, Affinity_PodAffinity = None,
      Affinity_PodAntiAffinity = Some
        \<lparr>RequiredDuringSchedulingIgnoredDuringExecution = [],
         PreferredDuringSchedulingIgnoredDuringExecution =
           [\<lparr>WeightedPodAffinityTerm_Weight = 100,
             WeightedPodAffinityTerm_PodAffinityTerm =
               podAffinityTerm w n (if TopologyKey config = [] then ''kubernetes.io/hostname''
                                    else TopologyKey config)\<rparr>]\<rparr>\<rparr>"
  by (cases "EnablePodAntiAffinity config")
    (simp_all add: CreateGeneratedAntiAffinity_def PodAntiAffinityTypeRequired_def
      PodAntiAffinityTypePreferred_def Let_def)

lemma CreateGeneratedAntiAffinity_other:
  "PodAntiAffinityType config \<noteq> ''required'' \<Longrightarrow>
   PodAntiAffinityType config \<noteq> ''preferred'' \<Longrightarrow>
   CreateGeneratedAntiAffinity w n config = None"
  by (simp add: CreateGeneratedAntiAffinity_def PodAntiAffinityTypeRequired_def
      PodAntiAffinityTypePreferred_def Let_def)

lemma CreateAffinitySection_no_extensions:
  "AdditionalPodAffinity config = None \<Longrightarrow> AdditionalPodAntiAffinity config = None \<Longrightarrow>
   NodeAffinity config = None \<Longrightarrow>
   CreateAffinitySection w n config = CreateGeneratedAntiAffinity w n config"
  by (simp add: CreateAffinitySection_def)

lemma CreateAffinitySection_only_extensions:
  "CreateGeneratedAntiAffinity w n config = None \<Longrightarrow>
   CreateAffinitySection w n config =
     (if AdditionalPodAffinity config = None \<and> AdditionalPodAntiAffinity config = None
         \<and> NodeAffinity config = None
      then None
      else Some \<lparr>Affinity_NodeAffinity = NodeAffinity config,
                 Affinity_PodAffinity = AdditionalPodAffinity config,
                 Affinity_PodAntiAffinity = AdditionalPodAntiAffinity config\<rparr>)"
  by (cases "AdditionalPodAffinity config"; cases "AdditionalPodAntiAffinity config";
      cases "NodeAffinity config")
    (simp_all add: CreateAffinitySection_def Let_def)

lemma generated_cases:
  "CreateGeneratedAntiAffinity w n config = None \<or>
   (\<exists>anti. CreateGeneratedAntiAffinity w n config = Some
      \<lparr>Affinity_NodeAffinity = None, Affinity_PodAffinity = None,
       Affinity_PodAntiAffinity = Some anti\<rparr>)"
  by (simp add: CreateGeneratedAntiAffinity_def Let_def)

subsection \<open>The sample environment evaluated\<close>

lemma world0_simps:
  "PodPatchAnnotationName (utils world0) = ''cnpg.io/podPatch''"
  "PodSpecAnnotationName (utils world0) = ''cnpg.io/podSpec''"
  "OperationVerbEvaluate (plugin world0) = ''evaluate''"
  "json_Marshal_Pod (lib world0) pod = Inr (ObjectMeta_Name (Pod_ObjectMeta pod))"
  "json_Marshal_PodSpec (lib world0) spec =
     Inr (concat (map Container_Name (PodSpec_Containers spec)))"
  "json_Unmarshal_Pod (lib world0) doc pod = Inr pod"
  "jsonpatch_DecodePatch (lib world0) text = (if text = ''[]'' then Inr [] else Inl ''invalid'')"
  "jsonpatch_Apply (lib world0) patch doc = Inr doc"
  by (simp_all add: world0_def)

lemma world0_names:
  "ClusterSerialAnnotationName (utils world0) = ''cnpg.io/nodeSerial''"
  "PodEnvHashAnnotationName (utils world0) = ''cnpg.io/podEnvHash''"
  by (simp_all add: world0_def)

lemma world_variants_simps:
  "utils world_apply_fails = utils world0"
  "utils world_unmarshal_fails = utils world0"
  "json_Marshal_Pod (lib world_apply_fails) = json_Marshal_Pod (lib world0)"
  "json_Marshal_Pod (lib world_unmarshal_fails) = json_Marshal_Pod (lib world0)"
  "jsonpatch_DecodePatch (lib world_apply_fails) = jsonpatch_DecodePatch (lib world0)"
  "jsonpatch_DecodePatch (lib world_unmarshal_fails) = jsonpatch_DecodePatch (lib world0)"
  "jsonpatch_Apply (lib world_unmarshal_fails) = jsonpatch_Apply (lib world0)"
  "jsonpatch_Apply (lib world_apply_fails) patch doc = Inl ''test failed''"
  "json_Unmarshal_Pod (lib world_unmarshal_fails) doc pod = Inl ''cannot unmarshal''"
  by (simp_all add: world_apply_fails_def world_unmarshal_fails_def)

lemma world_null_patch_simps:
  "utils world_null_patch = utils world0"
  "plugin world_null_patch = plugin world0"
  "json_Marshal_Pod (lib world_null_patch) = json_Marshal_Pod (lib world0)"
  "json_Marshal_PodSpec (lib world_null_patch) = json_Marshal_PodSpec (lib world0)"
  "jsonpatch_DecodePatch (lib world_null_patch) nullAnnotationsPatch =
     Inr [[''op'' \<mapsto> ''add'', ''path'' \<mapsto> ''/metadata/annotations'', ''value'' \<mapsto> ''null'']]"
  "jsonpatch_DecodePatch (lib world_null_patch) ''[]'' = Inr []"
  "jsonpatch_Apply (lib world_null_patch)
     [[''op'' \<mapsto> ''add'', ''path'' \<mapsto> ''/metadata/annotations'', ''value'' \<mapsto> ''null'']] doc =
     Inr (doc @ '' annotations:null'')"
  "jsonpatch_Apply (lib world_null_patch) [] doc = Inr doc"
  "json_Unmarshal_Pod (lib world_null_patch) (doc @ '' annotations:null'') pod =
     Inr (pod\<lparr>Pod_ObjectMeta := (Pod_ObjectMeta pod)\<lparr>ObjectMeta_Annotations := None\<rparr>\<rparr>)"
  "json_Unmarshal_Pod (lib world_null_patch) ''pg-1'' pod = Inr pod"
  by (simp_all add: world_null_patch_def world0_simps nullAnnotationsPatch_def)

lemma patched_simps:
  "lookup (Cluster_Annotations (patched text)) ''cnpg.io/podPatch'' = text"
  "Cluster_Annotations cluster0 k = None"
  by (simp_all add: patched_def lookup_def cluster0_def)

lemma nullAnnotationsPatch_not_empty: "nullAnnotationsPatch \<noteq> []"
  by (simp add: nullAnnotationsPatch_def)

lemma hooks_simps:
  "GetPluginClientFromContext noClient = None"
  "GetPluginClientFromContext sidecarHook = Some
     \<lparr>LifecycleHook = (\<lambda>verb cluster pod. Inr (PodObject (Some (addSidecar pod))))\<rparr>"
  "GetPluginClientFromContext failingHook = Some
     \<lparr>LifecycleHook = (\<lambda>verb cluster pod. Inl ''unavailable'')\<rparr>"
  "GetPluginClientFromContext wrongShapeHook = Some
     \<lparr>LifecycleHook = (\<lambda>verb cluster pod. Inr OtherObject)\<rparr>"
  by (simp_all add: noClient_def sidecarHook_def failingHook_def wrongShapeHook_def)

lemma addSidecar_simps:
  "Pod_ObjectMeta (addSidecar pod) = Pod_ObjectMeta pod"
  "Pod_Spec (withAnnotation pod k v) = Pod_Spec pod"
  "ObjectMeta_Annotations (Pod_ObjectMeta (withAnnotation pod k v)) =
     Some ((the (ObjectMeta_Annotations (Pod_ObjectMeta pod)))(k \<mapsto> v))"
  by (simp_all add: addSidecar_def withAnnotation_def)

lemma no_apparmor:
  "\<not> IsAnnotationAppArmorPresent (utils world0) spec annotations"
  by (simp add: world0_def)

lemma no_apparmor_variants:
  "\<not> IsAnnotationAppArmorPresent (utils world_null_patch) spec annotations"
  by (simp add: world_null_patch_simps no_apparmor)

lemma sample_cluster_no_patch:
  "lookup (Cluster_Annotations cluster0) k = []"
  by (simp add: lookup_def patched_simps)

lemma composedPod_sample:
  "ObjectMeta_Annotations (Pod_ObjectMeta (composedPod world0 cluster0 1 True)) =
     Some [''cnpg.io/nodeSerial'' \<mapsto> Itoa 1, ''cnpg.io/podEnvHash'' \<mapsto> ''hash'']"
  "PodSpec_Affinity (Pod_Spec (composedPod world0 cluster0 1 True)) = None"
  "map Container_Name (PodSpec_Containers (Pod_Spec (composedPod world0 cluster0 1 True))) =
     [''postgres'']"
  by (simp_all add: composedPod_def world0_def cluster0_def affinity0_def Let_def
      createClusterPodSpec_def CreateAffinitySection_def CreateGeneratedAntiAffinity_def
      CreatePodEnvConfig_def PodAntiAffinityTypeRequired_def PodAntiAffinityTypePreferred_def
      createPostgresContainers_def ensureFailureThresholds_def configuredPostgresContainer_def
      postgresContainer_def ensureCustomProbesConfiguration_def PostgresContainerName_def)

lemma composedPod_annotations:
  assumes "\<And>spec annotations. \<not> IsAnnotationAppArmorPresent (utils w) spec annotations"
  shows "ObjectMeta_Annotations (Pod_ObjectMeta (composedPod w cluster nodeSerial tlsEnabled)) =
           Some [ClusterSerialAnnotationName (utils w) \<mapsto> Itoa nodeSerial,
                 PodEnvHashAnnotationName (utils w) \<mapsto>
                   Hash (CreatePodEnvConfig w cluster
                          (GetInstanceName (Cluster_Name cluster) nodeSerial))]"
  using assms by (simp add: composedPod_def Let_def)

lemma composedPod_containers:
  assumes "\<And>spec annotations. \<not> IsAnnotationAppArmorPresent (utils w) spec annotations"
  shows "map Container_Name (PodSpec_Containers (Pod_Spec (composedPod w cluster nodeSerial tlsEnabled)))
           = [Container_Name (ensureFailureThresholds w cluster
                (configuredPostgresContainer w cluster
                   (CreatePodEnvConfig w cluster (GetInstanceName (Cluster_Name cluster) nodeSerial))
                   tlsEnabled))]"
  using assms by (simp add: composedPod_def Let_def createClusterPodSpec_def
      createPostgresContainers_def)

lemma sample_annotations:
  "ObjectMeta_Annotations (Pod_ObjectMeta (composedPod world0 cluster0 1 True)) =
     Some [''cnpg.io/nodeSerial'' \<mapsto> Itoa 1,
           ''cnpg.io/podEnvHash'' \<mapsto> Hash (CreatePodEnvConfig world0 cluster0
              (GetInstanceName (Cluster_Name cluster0) 1))]"
  using composedPod_annotations [of world0 cluster0 1 True, OF no_apparmor]
  by (simp only: world0_names)

lemma Itoa_1: "Itoa 1 = ''1''"
  by code_simp

lemma null_patch_sample:
  "ObjectMeta_Name (Pod_ObjectMeta (composedPod world_null_patch (patched ''[]'') 1 True)) =
     ''pg-1''"
  "map Container_Name (PodSpec_Containers (Pod_Spec
     (composedPod world_null_patch (patched ''[]'') 1 True))) = [''postgres'']"
  by (simp_all add: composedPod_def world_null_patch_def world0_def patched_def cluster0_def
      affinity0_def Let_def GetInstanceName_def Itoa_1
      createClusterPodSpec_def CreateAffinitySection_def CreateGeneratedAntiAffinity_def
      CreatePodEnvConfig_def PodAntiAffinityTypeRequired_def PodAntiAffinityTypePreferred_def
      createPostgresContainers_def ensureFailureThresholds_def configuredPostgresContainer_def
      postgresContainer_def ensureCustomProbesConfiguration_def PostgresContainerName_def)

lemma sample_marshal:
  "json_Marshal_PodSpec (lib world0) (Pod_Spec (composedPod world0 cluster0 1 True)) =
     Inr ''postgres''"
  "json_Marshal_PodSpec (lib world0) (Pod_Spec (addSidecar (composedPod world0 cluster0 1 True))) =
     Inr ''postgres+sidecar''"
  using composedPod_sample(3)
  by (simp_all add: world0_simps addSidecar_def)

subsection \<open>The steps of the pipeline\<close>

lemma buildInstance_no_patch:
  "lookup (Cluster_Annotations cluster) (PodPatchAnnotationName (utils w)) = [] \<Longrightarrow>
   buildInstance w cluster nodeSerial tlsEnabled = Inr (composedPod w cluster nodeSerial tlsEnabled)"
  by (simp add: buildInstance_def Let_def)

lemma buildInstance_sample:
  "buildInstance world0 cluster0 1 True = Inr (composedPod world0 cluster0 1 True)"
  by (simp add: buildInstance_def lookup_def Let_def) (simp add: cluster0_def world0_def)

lemma sample_built:
  "buildInstance world0 cluster0 1 True = Inr (composedPod world0 cluster0 1 True)"
  by (rule buildInstance_no_patch, rule sample_cluster_no_patch)

lemma buildInstance_sample_invalid_patch: "buildInstance world0 (patched ''x'') 1 True = Inl (PatchDecodeError ''invalid'')"
  by (simp add: buildInstance_def world0_simps patched_simps Let_def)

lemma deferred_marshal_fails:
  "json_Marshal_PodSpec (lib w) (Pod_Spec p) = Inl e \<Longrightarrow> deferred w (Some p) = Return (Some p)"
  by (simp add: deferred_def)

lemma deferred_annotates:
  "json_Marshal_PodSpec (lib w) (Pod_Spec p) = Inr s \<Longrightarrow>
   ObjectMeta_Annotations (Pod_ObjectMeta p) = Some m \<Longrightarrow>
   deferred w (Some p) = Return (Some (withAnnotation p (PodSpecAnnotationName (utils w)) s))"
  by (simp add: deferred_def withAnnotation_def)

lemma deferred_panics:
  "json_Marshal_PodSpec (lib w) (Pod_Spec p) = Inr s \<Longrightarrow>
   ObjectMeta_Annotations (Pod_ObjectMeta p) = None \<Longrightarrow>
   deferred w (Some p) = Panic"
  by (simp add: deferred_def)

lemma NewInstance_no_client:
  "buildInstance w cluster nodeSerial tlsEnabled = Inr pod \<Longrightarrow>
   GetPluginClientFromContext ctx = None \<Longrightarrow>
   NewInstance w ctx cluster nodeSerial tlsEnabled =
     (case deferred w (Some pod) of Panic \<Rightarrow> (Panic, []) | Return pod' \<Rightarrow> (Return (Inr pod'), []))"
  by (simp add: NewInstance_def)

lemma NewInstance_hook_pod:
  "buildInstance w cluster nodeSerial tlsEnabled = Inr pod \<Longrightarrow>
   GetPluginClientFromContext ctx = Some client \<Longrightarrow>
   LifecycleHook client (OperationVerbEvaluate (plugin w)) cluster pod = Inr (PodObject hookPod) \<Longrightarrow>
   NewInstance w ctx cluster nodeSerial tlsEnabled =
     (case deferred w hookPod of
        Panic \<Rightarrow> (Panic, [(OperationVerbEvaluate (plugin w), cluster, pod)])
      | Return pod' \<Rightarrow> (Return (Inr pod'), [(OperationVerbEvaluate (plugin w), cluster, pod)]))"
  by (simp add: NewInstance_def Let_def)

lemma NewInstance_hook_error:
  "buildInstance w cluster nodeSerial tlsEnabled = Inr pod \<Longrightarrow>
   GetPluginClientFromContext ctx = Some client \<Longrightarrow>
   LifecycleHook client (OperationVerbEvaluate (plugin w)) cluster pod = Inl e \<Longrightarrow>
   NewInstance w ctx cluster nodeSerial tlsEnabled =
     (case deferred w (Some pod) of
        Panic \<Rightarrow> (Panic, [(OperationVerbEvaluate (plugin w), cluster, pod)])
      | Return pod' \<Rightarrow> (Return (Inl (HookInvocationError e)),
                        [(OperationVerbEvaluate (plugin w), cluster, pod)]))"
  by (simp add: NewInstance_def Let_def)

text \<open>
  The three ways out of the hook step that return no Pod of the hook, for a Pod of
  \<^verbatim>\<open>buildInstance\<close> that has an annotation map.
\<close>

lemma NewInstance_hook_step:
  assumes "buildInstance w cluster nodeSerial tlsEnabled = Inr pod"
  shows "(GetPluginClientFromContext ctx = None
            \<and> ObjectMeta_Annotations (Pod_ObjectMeta pod) \<noteq> None \<longrightarrow>
            NewInstance w ctx cluster nodeSerial tlsEnabled =
              (Return (Inr (Some
                 (case json_Marshal_PodSpec (lib w) (Pod_Spec pod) of
                    Inl marshalErr \<Rightarrow> pod
                  | Inr podSpecMarshaled \<Rightarrow>
                      withAnnotation pod (PodSpecAnnotationName (utils w)) podSpecMarshaled))),
               []))
       \<and> (GetPluginClientFromContext ctx = Some client
            \<and> LifecycleHook client (OperationVerbEvaluate (plugin w)) cluster pod = Inl e
            \<and> ObjectMeta_Annotations (Pod_ObjectMeta pod) \<noteq> None \<longrightarrow>
            NewInstance w ctx cluster nodeSerial tlsEnabled =
              (Return (Inl (HookInvocationError e)),
               [(OperationVerbEvaluate (plugin w), cluster, pod)]))
       \<and> (GetPluginClientFromContext ctx = Some client
            \<and> LifecycleHook client (OperationVerbEvaluate (plugin w)) cluster pod = Inr OtherObject
            \<longrightarrow>
            NewInstance w ctx cluster nodeSerial tlsEnabled =
              (Return (Inl HookResponseTypeError),
               [(OperationVerbEvaluate (plugin w), cluster, pod)]))"
  using assms
  by (auto simp: NewInstance_def deferred_def withAnnotation_def Let_def split: sum.splits)

lemma NewInstance_hook_step_sample:
  "buildInstance world0 cluster0 1 True = Inr (composedPod world0 cluster0 1 True)
   \<and> ObjectMeta_Annotations (Pod_ObjectMeta (composedPod world0 cluster0 1 True)) \<noteq> None
   \<and> NewInstance world0 noClient cluster0 1 True =
       (Return (Inr (Some (withAnnotation (composedPod world0 cluster0 1 True)
                             ''cnpg.io/podSpec'' ''postgres''))), [])
   \<and> NewInstance world0 failingHook cluster0 1 True =
       (Return (Inl (HookInvocationError ''unavailable'')),
        [(''evaluate'', cluster0, composedPod world0 cluster0 1 True)])
   \<and> NewInstance world0 wrongShapeHook cluster0 1 True =
       (Return (Inl HookResponseTypeError),
        [(''evaluate'', cluster0, composedPod world0 cluster0 1 True)])"
proof -
  let ?pod = "composedPod world0 cluster0 1 True"
  note b = sample_built
  have a: "ObjectMeta_Annotations (Pod_ObjectMeta ?pod) \<noteq> None"
    by (simp only: sample_annotations) simp
  have 1: "NewInstance world0 noClient cluster0 1 True =
       (Return (Inr (Some (withAnnotation ?pod ''cnpg.io/podSpec'' ''postgres''))), [])"
    using NewInstance_hook_step [OF b, of noClient] a
    by (simp add: hooks_simps world0_simps composedPod_sample(3))
  have 2: "NewInstance world0 failingHook cluster0 1 True =
       (Return (Inl (HookInvocationError ''unavailable'')), [(''evaluate'', cluster0, ?pod)])"
    using NewInstance_hook_step [OF b, of failingHook
        "\<lparr>LifecycleHook = (\<lambda>verb cluster pod. Inl ''unavailable'')\<rparr>" "''unavailable''"] a
    by (simp add: hooks_simps world0_simps)
  have 3: "NewInstance world0 wrongShapeHook cluster0 1 True =
       (Return (Inl HookResponseTypeError), [(''evaluate'', cluster0, ?pod)])"
    using NewInstance_hook_step [OF b, of wrongShapeHook
        "\<lparr>LifecycleHook = (\<lambda>verb cluster pod. Inr OtherObject)\<rparr>"]
    by (simp add: hooks_simps world0_simps)
  show ?thesis using b a 1 2 3 by blast
qed

subsection \<open>Claims\<close>

text \<open>
  C1. \<^verbatim>\<open>NewInstance\<close> has returned a Pod and no error, and the JSON encoder gives \<open>s\<close>
  for the specification of that Pod. Then the Pod carries \<open>s\<close> under the annotation
  \<^verbatim>\<open>utils.PodSpecAnnotationName\<close>. With a plugin client in the context the returned Pod
  is the Pod that the lifecycle hook answered with, with that one annotation set, so \<open>s\<close>
  is the serialization of the specification of the hook and not of the one given to the
  hook; without a client it is the Pod of \<^verbatim>\<open>buildInstance\<close> (the patched one), with
  that one annotation set. The deferred function runs on every return, so this holds on
  every path that returns a Pod.
\<close>

theorem NewInstance_self_annotation:
  assumes "fst (NewInstance w ctx cluster nodeSerial tlsEnabled) = Return (Inr (Some pod))"
    and "json_Marshal_PodSpec (lib w) (Pod_Spec pod) = Inr s"
  shows "annotation pod (PodSpecAnnotationName (utils w)) = Some s
       \<and> (GetPluginClientFromContext ctx = None \<longrightarrow>
            (\<exists>built. buildInstance w cluster nodeSerial tlsEnabled = Inr built
               \<and> Pod_Spec pod = Pod_Spec built
               \<and> pod = withAnnotation built (PodSpecAnnotationName (utils w)) s))
       \<and> (GetPluginClientFromContext ctx = Some client \<longrightarrow>
            (\<exists>built hookPod.
               buildInstance w cluster nodeSerial tlsEnabled = Inr built
               \<and> LifecycleHook client (OperationVerbEvaluate (plugin w)) cluster built =
                   Inr (PodObject (Some hookPod))
               \<and> Pod_Spec pod = Pod_Spec hookPod
               \<and> json_Marshal_PodSpec (lib w) (Pod_Spec hookPod) = Inr s
               \<and> pod = withAnnotation hookPod (PodSpecAnnotationName (utils w)) s))"
  using assms
  by (auto simp: NewInstance_def deferred_def annotation_def withAnnotation_def Let_def
      split: sum.splits option.splits ClientObject.splits outcome.splits)

text \<open>
  C1, witness. With the sample encoder the hook's sidecar is part of the snapshot: the
  returned Pod is the Pod of the hook annotated with the serialization of its own
  specification, which names the containers \<open>postgres\<close> and \<open>+sidecar\<close>.
\<close>

theorem NewInstance_self_annotation_witness:
  "fst (NewInstance world0 sidecarHook cluster0 1 True) =
     Return (Inr (Some (withAnnotation (addSidecar (composedPod world0 cluster0 1 True))
                          ''cnpg.io/podSpec'' ''postgres+sidecar'')))
   \<and> json_Marshal_PodSpec (lib world0)
        (Pod_Spec (withAnnotation (addSidecar (composedPod world0 cluster0 1 True))
                     ''cnpg.io/podSpec'' ''postgres+sidecar'')) = Inr ''postgres+sidecar''
   \<and> annotation (withAnnotation (addSidecar (composedPod world0 cluster0 1 True))
                     ''cnpg.io/podSpec'' ''postgres+sidecar'')
        (PodSpecAnnotationName (utils world0)) = Some ''postgres+sidecar''"
proof -
  let ?pod = "composedPod world0 cluster0 1 True"
  let ?final = "withAnnotation (addSidecar ?pod) ''cnpg.io/podSpec'' ''postgres+sidecar''"
  have d: "deferred world0 (Some (addSidecar ?pod)) = Return (Some ?final)"
    using deferred_annotates [of world0 "addSidecar ?pod" "''postgres+sidecar''",
        OF sample_marshal(2)]
    by (simp add: addSidecar_simps sample_annotations world0_simps)
  have "NewInstance world0 sidecarHook cluster0 1 True =
     (case deferred world0 (Some (addSidecar ?pod)) of
        Panic \<Rightarrow> (Panic, [(OperationVerbEvaluate (plugin world0), cluster0, ?pod)])
      | Return pod' \<Rightarrow> (Return (Inr pod'),
          [(OperationVerbEvaluate (plugin world0), cluster0, ?pod)]))"
    by (rule NewInstance_hook_pod [OF sample_built hooks_simps(2)]) simp
  then have run: "fst (NewInstance world0 sidecarHook cluster0 1 True) = Return (Inr (Some ?final))"
    by (simp add: d)
  have m: "json_Marshal_PodSpec (lib world0) (Pod_Spec ?final) = Inr ''postgres+sidecar''"
    by (simp only: addSidecar_simps sample_marshal)
  have "annotation ?final (PodSpecAnnotationName (utils world0)) = Some ''postgres+sidecar''"
    using NewInstance_self_annotation [OF run m] by blast
  then show ?thesis using run m by blast
qed

text \<open>
  C2. The cluster carries a non-empty pod-patch annotation. The patch is decoded once the
  composed Pod has been serialized, to \<open>doc\<close>. If decoding the patch fails, or decoding
  succeeds and applying the patch to \<open>doc\<close> fails, or both succeed and decoding the
  patched document into the Pod fails, then \<^verbatim>\<open>NewInstance\<close> returns the error of that
  stage (\<open>PatchDecodeError\<close>, \<open>PatchApplyError\<close>, \<open>PatchDeserializeError\<close>, each
  wrapping the error of the library) and no Pod, and the list of hook calls is empty: the
  lifecycle hook is not invoked, whatever the context holds. The same holds when the
  serialization itself fails (\<open>SerializeError\<close>), and every error of \<^verbatim>\<open>buildInstance\<close>
  is returned as it is, before the plugin client is looked up.
\<close>

theorem patch_failure_aborts:
  assumes "lookup (Cluster_Annotations cluster) (PodPatchAnnotationName (utils w)) = jsonPatch"
    and "jsonPatch \<noteq> []"
  shows "(json_Marshal_Pod (lib w) (composedPod w cluster nodeSerial tlsEnabled) = Inr doc
            \<and> jsonpatch_DecodePatch (lib w) jsonPatch = Inl e \<longrightarrow>
            NewInstance w ctx cluster nodeSerial tlsEnabled =
              (Return (Inl (PatchDecodeError e)), []))
       \<and> (json_Marshal_Pod (lib w) (composedPod w cluster nodeSerial tlsEnabled) = Inr doc
            \<and> jsonpatch_DecodePatch (lib w) jsonPatch = Inr patch
            \<and> jsonpatch_Apply (lib w) patch doc = Inl e \<longrightarrow>
            NewInstance w ctx cluster nodeSerial tlsEnabled =
              (Return (Inl (PatchApplyError e)), []))
       \<and> (json_Marshal_Pod (lib w) (composedPod w cluster nodeSerial tlsEnabled) = Inr doc
            \<and> jsonpatch_DecodePatch (lib w) jsonPatch = Inr patch
            \<and> jsonpatch_Apply (lib w) patch doc = Inr doc'
            \<and> json_Unmarshal_Pod (lib w) doc' (composedPod w cluster nodeSerial tlsEnabled) = Inl e
            \<longrightarrow>
            NewInstance w ctx cluster nodeSerial tlsEnabled =
              (Return (Inl (PatchDeserializeError e)), []))
       \<and> (json_Marshal_Pod (lib w) (composedPod w cluster nodeSerial tlsEnabled) = Inl e \<longrightarrow>
            NewInstance w ctx cluster nodeSerial tlsEnabled =
              (Return (Inl (SerializeError e)), []))
       \<and> (\<forall>err. buildInstance w cluster nodeSerial tlsEnabled = Inl err \<longrightarrow>
            NewInstance w ctx cluster nodeSerial tlsEnabled = (Return (Inl err), []))"
  using assms by (simp add: NewInstance_def buildInstance_def Let_def)

text \<open>
  C2, witness. An invalid patch text, a patch that does not apply and a patched document
  that does not decode, each under a context whose hook would add a sidecar.
\<close>

theorem patch_failure_aborts_witness:
  "lookup (Cluster_Annotations (patched ''x'')) (PodPatchAnnotationName (utils world0)) = ''x''
   \<and> jsonpatch_DecodePatch (lib world0) ''x'' = Inl ''invalid''
   \<and> NewInstance world0 sidecarHook (patched ''x'') 1 True =
       (Return (Inl (PatchDecodeError ''invalid'')), [])
   \<and> Error (PatchDecodeError ''invalid'') = ''while decoding JSON patch from annotation: invalid''
   \<and> jsonpatch_Apply (lib world_apply_fails) []
        (ObjectMeta_Name (Pod_ObjectMeta (composedPod world_apply_fails (patched ''[]'') 1 True)))
       = Inl ''test failed''
   \<and> NewInstance world_apply_fails sidecarHook (patched ''[]'') 1 True =
       (Return (Inl (PatchApplyError ''test failed'')), [])
   \<and> json_Unmarshal_Pod (lib world_unmarshal_fails)
        (ObjectMeta_Name (Pod_ObjectMeta (composedPod world_unmarshal_fails (patched ''[]'') 1 True)))
        (composedPod world_unmarshal_fails (patched ''[]'') 1 True) = Inl ''cannot unmarshal''
   \<and> NewInstance world_unmarshal_fails sidecarHook (patched ''[]'') 1 True =
       (Return (Inl (PatchDeserializeError ''cannot unmarshal'')), [])"
proof -
  have l: "lookup (Cluster_Annotations (patched t)) (PodPatchAnnotationName (utils world0)) = t"
    for t by (simp add: world0_simps patched_simps)
  have 1: "NewInstance world0 sidecarHook (patched ''x'') 1 True =
       (Return (Inl (PatchDecodeError ''invalid'')), [])"
    using patch_failure_aborts [where w = world0 and cluster = "patched ''x''"
        and jsonPatch = "''x''" and nodeSerial = 1 and tlsEnabled = True and ctx = sidecarHook
        and doc = "ObjectMeta_Name (Pod_ObjectMeta (composedPod world0 (patched ''x'') 1 True))"
        and e = "''invalid''", OF l]
    by (simp add: world0_simps)
  have 2: "NewInstance world_apply_fails sidecarHook (patched ''[]'') 1 True =
       (Return (Inl (PatchApplyError ''test failed'')), [])"
    using patch_failure_aborts [where w = world_apply_fails and cluster = "patched ''[]''"
        and jsonPatch = "''[]''" and nodeSerial = 1 and tlsEnabled = True and ctx = sidecarHook
        and doc = "ObjectMeta_Name (Pod_ObjectMeta
                     (composedPod world_apply_fails (patched ''[]'') 1 True))"
        and e = "''test failed''" and patch = "[]"]
    by (simp add: world_variants_simps world0_simps patched_simps)
  have 3: "NewInstance world_unmarshal_fails sidecarHook (patched ''[]'') 1 True =
       (Return (Inl (PatchDeserializeError ''cannot unmarshal'')), [])"
    using patch_failure_aborts [where w = world_unmarshal_fails and cluster = "patched ''[]''"
        and jsonPatch = "''[]''" and nodeSerial = 1 and tlsEnabled = True and ctx = sidecarHook
        and doc = "ObjectMeta_Name (Pod_ObjectMeta
                     (composedPod world_unmarshal_fails (patched ''[]'') 1 True))"
        and doc' = "ObjectMeta_Name (Pod_ObjectMeta
                     (composedPod world_unmarshal_fails (patched ''[]'') 1 True))"
        and e = "''cannot unmarshal''" and patch = "[]"]
    by (simp add: world_variants_simps world0_simps patched_simps)
  show ?thesis
    using l [of "''x''"] 1 2 3 by (simp add: world0_simps world_variants_simps)
qed

text \<open>
  C3. For a startup delay \<open>d\<close> and a probe period \<open>p\<close>, both positive \<^verbatim>\<open>int32\<close>,
  \<^verbatim>\<open>getFailureThreshold\<close> returns 1 when \<open>d \<le> p\<close> and otherwise the smallest integer that
  is at least \<open>d/p\<close>, computed through \<^verbatim>\<open>float64\<close> as the source does. So the threshold
  times the period is at least the delay, the threshold is at least 1, and no smaller
  positive number of periods covers the delay. The five values of the specification are
  evaluated on the floating-point model. In \<^verbatim>\<open>createPostgresContainers\<close> the startup
  probe gets the resolved threshold exactly when its threshold is still zero after the
  overrides of the cluster were merged, the liveness probe exactly when the cluster sets
  a liveness timeout and its merged threshold is still zero, and the readiness probe never.
\<close>

theorem getFailureThreshold_resolution:
  assumes "0 <s d" and "0 <s p"
  shows "sint (getFailureThreshold unrep d p) =
           (if sint d \<le> sint p then 1 else \<lceil>(of_int (sint d) / of_int (sint p) :: rat)\<rceil>)
       \<and> sint d \<le> sint (getFailureThreshold unrep d p) * sint p
       \<and> 1 \<le> sint (getFailureThreshold unrep d p)
       \<and> (\<forall>n. sint d \<le> n * sint p \<and> 1 \<le> n \<longrightarrow> sint (getFailureThreshold unrep d p) \<le> n)
       \<and> getFailureThreshold unrep 30 10 = 3
       \<and> getFailureThreshold unrep 20 10 = 2
       \<and> getFailureThreshold unrep 5 10 = 1
       \<and> getFailureThreshold unrep 10 10 = 1
       \<and> getFailureThreshold unrep 31 10 = 4
       \<and> createPostgresContainers w cluster envConfig enableHTTPS =
           [ensureFailureThresholds w cluster
              (configuredPostgresContainer w cluster envConfig enableHTTPS)]
       \<and> Probe_FailureThreshold (Container_StartupProbe (ensureFailureThresholds w cluster c)) =
           (if Probe_FailureThreshold (Container_StartupProbe c) = 0
            then getFailureThreshold (go_unrepresentable w) (GetMaxStartDelay (apiv1 w) cluster)
                   (Probe_PeriodSeconds (Container_StartupProbe c))
            else Probe_FailureThreshold (Container_StartupProbe c))
       \<and> Probe_FailureThreshold (Container_LivenessProbe (ensureFailureThresholds w cluster c)) =
           (case ClusterSpec_LivenessProbeTimeout (Cluster_Spec cluster) of
              None \<Rightarrow> Probe_FailureThreshold (Container_LivenessProbe c)
            | Some timeout \<Rightarrow>
                if Probe_FailureThreshold (Container_LivenessProbe c) = 0
                then getFailureThreshold (go_unrepresentable w) timeout
                       (Probe_PeriodSeconds (Container_LivenessProbe c))
                else Probe_FailureThreshold (Container_LivenessProbe c))
       \<and> Container_ReadinessProbe (ensureFailureThresholds w cluster c) =
           Container_ReadinessProbe c"
proof -
  have s: "sint (getFailureThreshold unrep d p) =
           (if sint d \<le> sint p then 1 else \<lceil>(of_int (sint d) / of_int (sint p) :: rat)\<rceil>)"
    using assms by (rule sint_getFailureThreshold)
  have l: "sint d \<le> sint (getFailureThreshold unrep d p) * sint p
     \<and> 1 \<le> sint (getFailureThreshold unrep d p)
     \<and> (\<forall>n. sint d \<le> n * sint p \<and> 1 \<le> n \<longrightarrow> sint (getFailureThreshold unrep d p) \<le> n)"
    using assms by (rule getFailureThreshold_least)
  have l1: "sint d \<le> sint (getFailureThreshold unrep d p) * sint p"
    and l2: "1 \<le> sint (getFailureThreshold unrep d p)"
    and l3: "\<forall>n. sint d \<le> n * sint p \<and> 1 \<le> n \<longrightarrow> sint (getFailureThreshold unrep d p) \<le> n"
    using l by blast+
  have e1: "getFailureThreshold unrep 30 10 = 3" by code_simp
  have e2: "getFailureThreshold unrep 20 10 = 2" by code_simp
  have e3: "getFailureThreshold unrep 5 10 = 1" by code_simp
  have e4: "getFailureThreshold unrep 10 10 = 1" by code_simp
  have e5: "getFailureThreshold unrep 31 10 = 4" by code_simp
  have c: "createPostgresContainers w cluster envConfig enableHTTPS =
           [ensureFailureThresholds w cluster
              (configuredPostgresContainer w cluster envConfig enableHTTPS)]"
    by (simp only: createPostgresContainers_def)
  note st = ensureFailureThresholds_startup [of w cluster c]
  note lv = ensureFailureThresholds_liveness [of w cluster c]
  note rd = ensureFailureThresholds_readiness [of w cluster c]
  show ?thesis
    using s l1 l2 l3 e1 e2 e3 e4 e5 c st lv rd
    apply -
    apply (intro conjI)
                apply assumption+
    done
qed

text \<open>The theorem at delay 31 and period 10, and on the sample cluster.\<close>

theorem getFailureThreshold_resolution_witness:
  "0 <s (31::int32) \<and> 0 <s (10::int32)
   \<and> sint (getFailureThreshold (go_unrepresentable world0) 31 10) = 4
   \<and> sint (31::int32) \<le> 4 * sint (10::int32)
   \<and> Probe_FailureThreshold (Container_StartupProbe (hd (createPostgresContainers world0 cluster0
        (CreatePodEnvConfig world0 cluster0 ''pg-1'') True))) =
       getFailureThreshold (go_unrepresentable world0) 3600 10"
  using getFailureThreshold_resolution [where d = 31 and p = 10
      and unrep = "go_unrepresentable world0" and w = world0 and cluster = cluster0
      and envConfig = "CreatePodEnvConfig world0 cluster0 ''pg-1''" and enableHTTPS = True
      and c = "configuredPostgresContainer world0 cluster0
                 (CreatePodEnvConfig world0 cluster0 ''pg-1'') True"]
  by (simp add: word_sless_alt configuredPostgresContainer_sample) (simp add: world0_def)

text \<open>
  C4. As amended: the code has no default mode. When the anti-affinity type of the
  configuration is empty, \<^verbatim>\<open>CreateGeneratedAntiAffinity\<close> returns nil, whether or not
  anti-affinity is explicitly disabled, and the affinity section holds the declared
  extensions and nothing else: it is nil without extensions, and otherwise its node
  affinity, pod affinity and pod anti-affinity are the declared ones. An anti-affinity
  constraint is generated exactly when anti-affinity is not explicitly disabled and the
  type is "required" or "preferred". The composed Pod specification takes its affinity
  from \<^verbatim>\<open>CreateAffinitySection\<close> on the affinity configuration of the cluster. As
  stated (an unspecified mode defaults to required) the claim fails.
\<close>

theorem CreateGeneratedAntiAffinity_unset_mode:
  "(PodAntiAffinityType config = [] \<longrightarrow> CreateGeneratedAntiAffinity w n config = None)
   \<and> (PodAntiAffinityType config = [] \<and> AdditionalPodAffinity config = None
        \<and> AdditionalPodAntiAffinity config = None \<and> NodeAffinity config = None \<longrightarrow>
        CreateAffinitySection w n config = None)
   \<and> (PodAntiAffinityType config = [] \<longrightarrow>
        CreateAffinitySection w n config =
          (if AdditionalPodAffinity config = None \<and> AdditionalPodAntiAffinity config = None
              \<and> NodeAffinity config = None
           then None
           else Some \<lparr>Affinity_NodeAffinity = NodeAffinity config,
                      Affinity_PodAffinity = AdditionalPodAffinity config,
                      Affinity_PodAntiAffinity = AdditionalPodAntiAffinity config\<rparr>))
   \<and> (PodAntiAffinityType (ClusterSpec_Affinity (Cluster_Spec cluster)) = [] \<longrightarrow>
        PodSpec_Affinity (createClusterPodSpec w podName cluster envConfig gracePeriod enableHTTPS) =
          (if AdditionalPodAffinity (ClusterSpec_Affinity (Cluster_Spec cluster)) = None
              \<and> AdditionalPodAntiAffinity (ClusterSpec_Affinity (Cluster_Spec cluster)) = None
              \<and> NodeAffinity (ClusterSpec_Affinity (Cluster_Spec cluster)) = None
           then None
           else Some \<lparr>Affinity_NodeAffinity = NodeAffinity (ClusterSpec_Affinity (Cluster_Spec cluster)),
                      Affinity_PodAffinity =
                        AdditionalPodAffinity (ClusterSpec_Affinity (Cluster_Spec cluster)),
                      Affinity_PodAntiAffinity =
                        AdditionalPodAntiAffinity (ClusterSpec_Affinity (Cluster_Spec cluster))\<rparr>))
   \<and> (CreateGeneratedAntiAffinity w n config \<noteq> None \<longleftrightarrow>
        EnablePodAntiAffinity config \<noteq> Some False
        \<and> (PodAntiAffinityType config = ''required'' \<or> PodAntiAffinityType config = ''preferred''))
   \<and> PodSpec_Affinity (createClusterPodSpec w podName cluster envConfig gracePeriod enableHTTPS) =
        CreateAffinitySection w (Cluster_Name cluster) (ClusterSpec_Affinity (Cluster_Spec cluster))"
proof -
  have a: "PodAntiAffinityType config = [] \<longrightarrow> CreateGeneratedAntiAffinity w n config = None"
    by (simp add: CreateGeneratedAntiAffinity_other)
  have b: "PodAntiAffinityType config = [] \<and> AdditionalPodAffinity config = None
        \<and> AdditionalPodAntiAffinity config = None \<and> NodeAffinity config = None \<longrightarrow>
        CreateAffinitySection w n config = None"
    by (simp add: CreateAffinitySection_no_extensions CreateGeneratedAntiAffinity_other)
  have e: "PodAntiAffinityType config = [] \<longrightarrow>
        CreateAffinitySection w n config =
          (if AdditionalPodAffinity config = None \<and> AdditionalPodAntiAffinity config = None
              \<and> NodeAffinity config = None
           then None
           else Some \<lparr>Affinity_NodeAffinity = NodeAffinity config,
                      Affinity_PodAffinity = AdditionalPodAffinity config,
                      Affinity_PodAntiAffinity = AdditionalPodAntiAffinity config\<rparr>)" for config n
    by (simp add: CreateAffinitySection_only_extensions CreateGeneratedAntiAffinity_other)
  have c: "CreateGeneratedAntiAffinity w n config \<noteq> None \<longleftrightarrow>
        EnablePodAntiAffinity config \<noteq> Some False
        \<and> (PodAntiAffinityType config = ''required'' \<or> PodAntiAffinityType config = ''preferred'')"
    by (cases "EnablePodAntiAffinity config")
      (auto simp: CreateGeneratedAntiAffinity_def PodAntiAffinityTypeRequired_def
        PodAntiAffinityTypePreferred_def Let_def)
  have d: "PodSpec_Affinity (createClusterPodSpec w podName cluster envConfig gracePeriod enableHTTPS) =
        CreateAffinitySection w (Cluster_Name cluster) (ClusterSpec_Affinity (Cluster_Spec cluster))"
    by (simp add: createClusterPodSpec_def)
  note f = e [of "ClusterSpec_Affinity (Cluster_Spec cluster)" "Cluster_Name cluster",
      folded d]
  show ?thesis
    using a b e [of config n] f c d
    apply -
    apply (intro conjI)
    apply assumption+
    done
qed

text \<open>
  C4, counterexample. The sample cluster neither disables anti-affinity nor names a type.
  Nothing is generated, and the Pod that \<^verbatim>\<open>NewInstance\<close> returns has no affinity.
\<close>

theorem unset_mode_counterexample:
  "EnablePodAntiAffinity (ClusterSpec_Affinity (Cluster_Spec cluster0)) = None
   \<and> PodAntiAffinityType (ClusterSpec_Affinity (Cluster_Spec cluster0)) = []
   \<and> CreateGeneratedAntiAffinity world0 (Cluster_Name cluster0)
        (ClusterSpec_Affinity (Cluster_Spec cluster0)) = None
   \<and> (case returnedPod (fst (NewInstance world0 noClient cluster0 1 True)) of
         None \<Rightarrow> False
       | Some pod \<Rightarrow> PodSpec_Affinity (Pod_Spec pod) = None)"
  by (simp add: NewInstance_def buildInstance_sample noClient_def deferred_def returnedPod_def
      composedPod_sample split: sum.splits option.splits)
    (simp add: cluster0_def affinity0_def CreateGeneratedAntiAffinity_def
      PodAntiAffinityTypeRequired_def PodAntiAffinityTypePreferred_def)

text \<open>
  C4, witness. The sample affinity configuration has no type and no extensions; with a
  declared node affinity and a declared pod anti-affinity, and still no type, the section
  holds these two and no generated term; the sample configuration with type "required"
  generates a constraint.
\<close>

theorem CreateGeneratedAntiAffinity_unset_mode_witness:
  "PodAntiAffinityType affinity0 = [] \<and> EnablePodAntiAffinity affinity0 \<noteq> Some False
   \<and> AdditionalPodAffinity affinity0 = None \<and> AdditionalPodAntiAffinity affinity0 = None
   \<and> NodeAffinity affinity0 = None
   \<and> CreateGeneratedAntiAffinity world0 ''pg'' affinity0 = None
   \<and> CreateAffinitySection world0 ''pg'' affinity0 = None
   \<and> PodAntiAffinityType (affinity0\<lparr>NodeAffinity := Some nodeAffinity0,
        AdditionalPodAntiAffinity := Some podAntiAffinity0\<rparr>) = []
   \<and> CreateAffinitySection world0 ''pg''
        (affinity0\<lparr>NodeAffinity := Some nodeAffinity0,
                    AdditionalPodAntiAffinity := Some podAntiAffinity0\<rparr>) =
       Some \<lparr>Affinity_NodeAffinity = Some nodeAffinity0, Affinity_PodAffinity = None,
              Affinity_PodAntiAffinity = Some podAntiAffinity0\<rparr>
   \<and> CreateGeneratedAntiAffinity world0 ''pg'' (affinity0\<lparr>PodAntiAffinityType := ''required''\<rparr>)
       \<noteq> None"
  using CreateGeneratedAntiAffinity_unset_mode [of affinity0 world0 "''pg''"]
    CreateGeneratedAntiAffinity_unset_mode [of "affinity0\<lparr>NodeAffinity := Some nodeAffinity0,
      AdditionalPodAntiAffinity := Some podAntiAffinity0\<rparr>" world0 "''pg''"]
    CreateGeneratedAntiAffinity_unset_mode [of "affinity0\<lparr>PodAntiAffinityType := ''required''\<rparr>"
      world0 "''pg''"]
  by (simp add: affinity0_def)

text \<open>
  C5. The mode of a configuration is disabled, required or preferred: required
  (preferred) is the type "required" ("preferred") on a configuration that does not
  explicitly disable anti-affinity. With mode required the generated affinity is exactly
  one required anti-affinity term, no preferred term, no node affinity and no pod
  affinity; the term selects the cluster label with the name of the cluster and the role
  label with the instance role, both with operator \<open>In\<close>, on the topology key of the
  configuration, or on \<open>kubernetes.io/hostname\<close> when the configuration declares none.
  With mode preferred it is exactly one preferred term of weight 100 with the same
  selector and topology key, and no required term. When anti-affinity is explicitly
  disabled nothing is generated, and with no additional pod affinity, pod anti-affinity
  or node affinity the affinity section is nil, not an empty object.
\<close>

theorem CreateGeneratedAntiAffinity_modes:
  "(EnablePodAntiAffinity config \<noteq> Some False \<and> PodAntiAffinityType config = ''required'' \<longrightarrow>
      CreateGeneratedAntiAffinity w n config = Some
        \<lparr>Affinity_NodeAffinity = None, Affinity_PodAffinity = None,
         Affinity_PodAntiAffinity = Some
           \<lparr>RequiredDuringSchedulingIgnoredDuringExecution =
              [\<lparr>PodAffinityTerm_LabelSelector = Some
                  \<lparr>LabelSelector_MatchLabels = Map.empty,
                   LabelSelector_MatchExpressions =
                     [\<lparr>LabelSelectorRequirement_Key = ClusterLabelName (utils w),
                       LabelSelectorRequirement_Operator = ''In'',
                       LabelSelectorRequirement_Values = [n]\<rparr>,
                      \<lparr>LabelSelectorRequirement_Key = PodRoleLabelName (utils w),
                       LabelSelectorRequirement_Operator = ''In'',
                       LabelSelectorRequirement_Values = [PodRoleInstance (utils w)]\<rparr>]\<rparr>,
                PodAffinityTerm_Namespaces = [],
                PodAffinityTerm_TopologyKey =
                  (if TopologyKey config = [] then ''kubernetes.io/hostname''
                   else TopologyKey config),
                PodAffinityTerm_NamespaceSelector = None\<rparr>],
            PreferredDuringSchedulingIgnoredDuringExecution = []\<rparr>\<rparr>)
   \<and> (EnablePodAntiAffinity config \<noteq> Some False \<and> PodAntiAffinityType config = ''preferred'' \<longrightarrow>
      CreateGeneratedAntiAffinity w n config = Some
        \<lparr>Affinity_NodeAffinity = None, Affinity_PodAffinity = None,
         Affinity_PodAntiAffinity = Some
           \<lparr>RequiredDuringSchedulingIgnoredDuringExecution = [],
            PreferredDuringSchedulingIgnoredDuringExecution =
              [\<lparr>WeightedPodAffinityTerm_Weight = 100,
                WeightedPodAffinityTerm_PodAffinityTerm =
                  \<lparr>PodAffinityTerm_LabelSelector = Some
                     \<lparr>LabelSelector_MatchLabels = Map.empty,
                      LabelSelector_MatchExpressions =
                        [\<lparr>LabelSelectorRequirement_Key = ClusterLabelName (utils w),
                          LabelSelectorRequirement_Operator = ''In'',
                          LabelSelectorRequirement_Values = [n]\<rparr>,
                         \<lparr>LabelSelectorRequirement_Key = PodRoleLabelName (utils w),
                          LabelSelectorRequirement_Operator = ''In'',
                          LabelSelectorRequirement_Values = [PodRoleInstance (utils w)]\<rparr>]\<rparr>,
                   PodAffinityTerm_Namespaces = [],
                   PodAffinityTerm_TopologyKey =
                     (if TopologyKey config = [] then ''kubernetes.io/hostname''
                      else TopologyKey config),
                   PodAffinityTerm_NamespaceSelector = None\<rparr>\<rparr>]\<rparr>\<rparr>)
   \<and> (EnablePodAntiAffinity config = Some False \<longrightarrow>
        CreateGeneratedAntiAffinity w n config = None)
   \<and> (EnablePodAntiAffinity config = Some False \<and> AdditionalPodAffinity config = None
        \<and> AdditionalPodAntiAffinity config = None \<and> NodeAffinity config = None \<longrightarrow>
        CreateAffinitySection w n config = None)"
proof -
  have r: "EnablePodAntiAffinity config \<noteq> Some False \<and> PodAntiAffinityType config = ''required''
      \<longrightarrow> CreateGeneratedAntiAffinity w n config = Some
        \<lparr>Affinity_NodeAffinity = None, Affinity_PodAffinity = None,
         Affinity_PodAntiAffinity = Some
           \<lparr>RequiredDuringSchedulingIgnoredDuringExecution =
              [podAffinityTerm w n (if TopologyKey config = [] then ''kubernetes.io/hostname''
                                    else TopologyKey config)],
            PreferredDuringSchedulingIgnoredDuringExecution = []\<rparr>\<rparr>"
    by (simp add: CreateGeneratedAntiAffinity_required)
  have p: "EnablePodAntiAffinity config \<noteq> Some False \<and> PodAntiAffinityType config = ''preferred''
      \<longrightarrow> CreateGeneratedAntiAffinity w n config = Some
        \<lparr>Affinity_NodeAffinity = None, Affinity_PodAffinity = None,
         Affinity_PodAntiAffinity = Some
           \<lparr>RequiredDuringSchedulingIgnoredDuringExecution = [],
            PreferredDuringSchedulingIgnoredDuringExecution =
              [\<lparr>WeightedPodAffinityTerm_Weight = 100,
                WeightedPodAffinityTerm_PodAffinityTerm =
                  podAffinityTerm w n (if TopologyKey config = [] then ''kubernetes.io/hostname''
                                       else TopologyKey config)\<rparr>]\<rparr>\<rparr>"
    by (simp add: CreateGeneratedAntiAffinity_preferred)
  have d: "EnablePodAntiAffinity config = Some False \<longrightarrow>
        CreateGeneratedAntiAffinity w n config = None"
    by (simp add: CreateGeneratedAntiAffinity_disabled)
  have s: "EnablePodAntiAffinity config = Some False \<and> AdditionalPodAffinity config = None
        \<and> AdditionalPodAntiAffinity config = None \<and> NodeAffinity config = None \<longrightarrow>
        CreateAffinitySection w n config = None"
    by (simp add: CreateAffinitySection_no_extensions CreateGeneratedAntiAffinity_disabled)
  show ?thesis
    using r p d s unfolding podAffinityTerm_def LabelSelectorOpIn_def by blast
qed

text \<open>
  C5, witness. Mode required without a topology key, mode preferred with the topology key
  \<open>zone\<close>, and a disabled configuration without extensions.
\<close>

theorem CreateGeneratedAntiAffinity_modes_witness:
  "EnablePodAntiAffinity (affinity0\<lparr>PodAntiAffinityType := ''required''\<rparr>) \<noteq> Some False
   \<and> RequiredDuringSchedulingIgnoredDuringExecution
        (the (Affinity_PodAntiAffinity (the (CreateGeneratedAntiAffinity world0 ''pg''
           (affinity0\<lparr>PodAntiAffinityType := ''required''\<rparr>))))) =
      [podAffinityTerm world0 ''pg'' ''kubernetes.io/hostname'']
   \<and> EnablePodAntiAffinity (affinity0\<lparr>PodAntiAffinityType := ''preferred'',
          TopologyKey := ''zone''\<rparr>) \<noteq> Some False
   \<and> PreferredDuringSchedulingIgnoredDuringExecution
        (the (Affinity_PodAntiAffinity (the (CreateGeneratedAntiAffinity world0 ''pg''
           (affinity0\<lparr>PodAntiAffinityType := ''preferred'', TopologyKey := ''zone''\<rparr>))))) =
      [\<lparr>WeightedPodAffinityTerm_Weight = 100,
        WeightedPodAffinityTerm_PodAffinityTerm = podAffinityTerm world0 ''pg'' ''zone''\<rparr>]
   \<and> CreateAffinitySection world0 ''pg''
        (affinity0\<lparr>EnablePodAntiAffinity := Some False, PodAntiAffinityType := ''preferred''\<rparr>) = None"
  using CreateGeneratedAntiAffinity_modes [of "affinity0\<lparr>PodAntiAffinityType := ''required''\<rparr>"
      world0 "''pg''"]
    CreateGeneratedAntiAffinity_modes [of
      "affinity0\<lparr>PodAntiAffinityType := ''preferred'', TopologyKey := ''zone''\<rparr>" world0 "''pg''"]
    CreateGeneratedAntiAffinity_modes [of
      "affinity0\<lparr>EnablePodAntiAffinity := Some False, PodAntiAffinityType := ''preferred''\<rparr>"
      world0 "''pg''"]
  by (simp add: affinity0_def podAffinityTerm_def LabelSelectorOpIn_def)

text \<open>
  C6. In the result of \<^verbatim>\<open>CreateAffinitySection\<close>: a declared additional pod affinity
  is the pod-affinity field; a declared additional pod anti-affinity gives the generated
  required terms followed by the declared required terms, and the generated preferred
  terms followed by the declared preferred terms; a declared node affinity is the
  node-affinity field. With any of the three the result is an affinity object.
\<close>

theorem CreateAffinitySection_extensions:
  "(AdditionalPodAffinity config = Some podAffinity \<longrightarrow>
      (\<exists>a. CreateAffinitySection w n config = Some a \<and> Affinity_PodAffinity a = Some podAffinity))
   \<and> (AdditionalPodAntiAffinity config = Some additional \<longrightarrow>
      (\<exists>a. CreateAffinitySection w n config = Some a \<and>
           Affinity_PodAntiAffinity a = Some
             \<lparr>RequiredDuringSchedulingIgnoredDuringExecution =
                generatedRequired w n config @
                RequiredDuringSchedulingIgnoredDuringExecution additional,
              PreferredDuringSchedulingIgnoredDuringExecution =
                generatedPreferred w n config @
                PreferredDuringSchedulingIgnoredDuringExecution additional\<rparr>))
   \<and> (NodeAffinity config = Some nodeAffinity \<longrightarrow>
      (\<exists>a. CreateAffinitySection w n config = Some a \<and> Affinity_NodeAffinity a = Some nodeAffinity))"
  using generated_cases [of w n config]
  by (auto simp: CreateAffinitySection_def generatedRequired_def generatedPreferred_def Let_def
      split: option.splits)

text \<open>
  C6, witness. A configuration of mode required that declares all three extensions: the
  generated required term comes first and the declared terms follow.
\<close>

theorem CreateAffinitySection_extensions_witness:
  "AdditionalPodAffinity affinityExtended = Some podAffinity0
   \<and> AdditionalPodAntiAffinity affinityExtended = Some podAntiAffinity0
   \<and> NodeAffinity affinityExtended = Some nodeAffinity0
   \<and> CreateAffinitySection world0 ''pg'' affinityExtended = Some
        \<lparr>Affinity_NodeAffinity = Some nodeAffinity0,
         Affinity_PodAffinity = Some podAffinity0,
         Affinity_PodAntiAffinity = Some
           \<lparr>RequiredDuringSchedulingIgnoredDuringExecution =
              [podAffinityTerm world0 ''pg'' ''kubernetes.io/hostname'', userTerm ''batch''],
            PreferredDuringSchedulingIgnoredDuringExecution =
              [\<lparr>WeightedPodAffinityTerm_Weight = 50,
                WeightedPodAffinityTerm_PodAffinityTerm = userTerm ''web''\<rparr>]\<rparr>\<rparr>"
  using CreateAffinitySection_extensions [of affinityExtended podAffinity0 world0 "''pg''"
      podAntiAffinity0 nodeAffinity0]
  by (simp add: affinityExtended_def affinity0_def podAntiAffinity0_def
      CreateAffinitySection_def CreateGeneratedAntiAffinity_def
      PodAntiAffinityTypeRequired_def Let_def)

text \<open>
  C7. The variables of the configuration that \<^verbatim>\<open>CreatePodEnvConfig\<close> builds are the
  eight baseline entries \<open>PGDATA\<close>, \<open>POD_NAME\<close>, \<open>NAMESPACE\<close>, \<open>CLUSTER_NAME\<close>,
  \<open>PSQL_HISTORY\<close>, \<open>PGPORT\<close>, \<open>PGHOST\<close>, \<open>TMPDIR\<close> in this order, then the entries
  that the cluster declares, in their order, then the entry
  \<open>CNPG_STANDBY_TCP_USER_TIMEOUT\<close> exactly when the standby TCP user timeout of the
  process-wide configuration is not zero. The environment sources are those of the
  cluster, and the hash is the one computed over these variables and sources. The
  function is a total function of its arguments and of the configuration: the error that
  the hash computation may return is dropped and there is no other failing step.
\<close>

theorem CreatePodEnvConfig_order:
  "EnvVars (CreatePodEnvConfig w cluster podName) =
     [\<lparr>EnvVar_Name = ''PGDATA'', EnvVar_Value = PgDataPath, EnvVar_ValueFrom = None\<rparr>,
      \<lparr>EnvVar_Name = ''POD_NAME'', EnvVar_Value = podName, EnvVar_ValueFrom = None\<rparr>,
      \<lparr>EnvVar_Name = ''NAMESPACE'', EnvVar_Value = Cluster_Namespace cluster,
         EnvVar_ValueFrom = None\<rparr>,
      \<lparr>EnvVar_Name = ''CLUSTER_NAME'', EnvVar_Value = Cluster_Name cluster,
         EnvVar_ValueFrom = None\<rparr>,
      \<lparr>EnvVar_Name = ''PSQL_HISTORY'',
         EnvVar_Value = path_Join (lib w) (TemporaryDirectory (postgres w)) ''.psql_history'',
         EnvVar_ValueFrom = None\<rparr>,
      \<lparr>EnvVar_Name = ''PGPORT'', EnvVar_Value = Itoa (ServerPort (postgres w)),
         EnvVar_ValueFrom = None\<rparr>,
      \<lparr>EnvVar_Name = ''PGHOST'', EnvVar_Value = SocketDirectory (postgres w),
         EnvVar_ValueFrom = None\<rparr>,
      \<lparr>EnvVar_Name = ''TMPDIR'', EnvVar_Value = TemporaryDirectory (postgres w),
         EnvVar_ValueFrom = None\<rparr>]
     @ ClusterSpec_Env (Cluster_Spec cluster)
     @ (if StandbyTCPUserTimeout (configuration_Current w) \<noteq> 0
        then [\<lparr>EnvVar_Name = ''CNPG_STANDBY_TCP_USER_TIMEOUT'',
                EnvVar_Value = Itoa (StandbyTCPUserTimeout (configuration_Current w)),
                EnvVar_ValueFrom = None\<rparr>]
        else [])
   \<and> EnvFrom (CreatePodEnvConfig w cluster podName) = ClusterSpec_EnvFrom (Cluster_Spec cluster)
   \<and> Hash (CreatePodEnvConfig w cluster podName) =
       fst (ComputeHash (hash w)
             (EnvVars (CreatePodEnvConfig w cluster podName),
              EnvFrom (CreatePodEnvConfig w cluster podName), []))"
  by (simp add: CreatePodEnvConfig_def baselineEnvVars_def Let_def)

text \<open>
  C7, witness. The names of the variables for the sample cluster, without and with a
  standby TCP user timeout.
\<close>

theorem CreatePodEnvConfig_order_witness:
  "map EnvVar_Name (EnvVars (CreatePodEnvConfig world0 cluster0 ''pg-1'')) =
     [''PGDATA'', ''POD_NAME'', ''NAMESPACE'', ''CLUSTER_NAME'', ''PSQL_HISTORY'', ''PGPORT'',
      ''PGHOST'', ''TMPDIR'', ''A'', ''B'']
   \<and> map EnvVar_Name (EnvVars (CreatePodEnvConfig
        (world0\<lparr>configuration_Current := \<lparr>StandbyTCPUserTimeout = 5, CreateAnyService = False\<rparr>\<rparr>)
        cluster0 ''pg-1'')) =
     [''PGDATA'', ''POD_NAME'', ''NAMESPACE'', ''CLUSTER_NAME'', ''PSQL_HISTORY'', ''PGPORT'',
      ''PGHOST'', ''TMPDIR'', ''A'', ''B'', ''CNPG_STANDBY_TCP_USER_TIMEOUT'']"
  using CreatePodEnvConfig_order [of world0 cluster0 "''pg-1''"]
    CreatePodEnvConfig_order [of
      "world0\<lparr>configuration_Current := \<lparr>StandbyTCPUserTimeout = 5, CreateAnyService = False\<rparr>\<rparr>"
      cluster0 "''pg-1''"]
  by (simp add: world0_def cluster0_def)

text \<open>
  C8. \<^verbatim>\<open>IsEnvEqual\<close> is true exactly when the environment sources and the environment
  variables of the container are the lists of the configuration: the same length and
  the same element at every position. So when the variables (or the sources) of the
  container are a permutation of those of the configuration without being the same list,
  \<^verbatim>\<open>IsEnvEqual\<close> is false.
\<close>

theorem IsEnvEqual_order_sensitive:
  "(IsEnvEqual c container \<longleftrightarrow>
      Container_EnvFrom container = EnvFrom c \<and> Container_Env container = EnvVars c)
   \<and> (IsEnvEqual c container \<longleftrightarrow>
        length (Container_EnvFrom container) = length (EnvFrom c)
        \<and> (\<forall>i < length (EnvFrom c). Container_EnvFrom container ! i = EnvFrom c ! i)
        \<and> length (Container_Env container) = length (EnvVars c)
        \<and> (\<forall>i < length (EnvVars c). Container_Env container ! i = EnvVars c ! i))
   \<and> (mset (Container_Env container) = mset (EnvVars c) \<and> Container_Env container \<noteq> EnvVars c
        \<longrightarrow> \<not> IsEnvEqual c container)
   \<and> (mset (Container_EnvFrom container) = mset (EnvFrom c)
        \<and> Container_EnvFrom container \<noteq> EnvFrom c
        \<longrightarrow> \<not> IsEnvEqual c container)"
proof -
  have eq: "IsEnvEqual c container \<longleftrightarrow>
      Container_EnvFrom container = EnvFrom c \<and> Container_Env container = EnvVars c"
    by (simp add: IsEnvEqual_def EqualFunc_DeepEqual)
  have nth: "(xs = ys) = (length xs = length ys \<and> (\<forall>i < length ys. xs ! i = ys ! i))"
    for xs ys :: "'a list"
    by (auto simp: list_eq_iff_nth_eq)
  show ?thesis
    unfolding eq using nth [of "Container_EnvFrom container" "EnvFrom c"]
      nth [of "Container_Env container" "EnvVars c"] by blast
qed

text \<open>
  C8, witness. Two variables, and two sources, in swapped order are reported unequal; in
  the same order they are reported equal.
\<close>

theorem IsEnvEqual_order_sensitive_witness:
  "mset (Container_Env (bootstrapContainer0\<lparr>Container_Env := [envA, envB]\<rparr>)) =
     mset (EnvVars \<lparr>EnvVars = [envB, envA], EnvFrom = [], Hash = []\<rparr>)
   \<and> Container_Env (bootstrapContainer0\<lparr>Container_Env := [envA, envB]\<rparr>) \<noteq>
     EnvVars \<lparr>EnvVars = [envB, envA], EnvFrom = [], Hash = []\<rparr>
   \<and> \<not> IsEnvEqual \<lparr>EnvVars = [envB, envA], EnvFrom = [], Hash = []\<rparr>
          (bootstrapContainer0\<lparr>Container_Env := [envA, envB]\<rparr>)
   \<and> mset (Container_EnvFrom (bootstrapContainer0\<lparr>Container_EnvFrom := [sourceA, sourceB]\<rparr>)) =
     mset (EnvFrom \<lparr>EnvVars = [], EnvFrom = [sourceB, sourceA], Hash = []\<rparr>)
   \<and> Container_EnvFrom (bootstrapContainer0\<lparr>Container_EnvFrom := [sourceA, sourceB]\<rparr>) \<noteq>
     EnvFrom \<lparr>EnvVars = [], EnvFrom = [sourceB, sourceA], Hash = []\<rparr>
   \<and> \<not> IsEnvEqual \<lparr>EnvVars = [], EnvFrom = [sourceB, sourceA], Hash = []\<rparr>
          (bootstrapContainer0\<lparr>Container_EnvFrom := [sourceA, sourceB]\<rparr>)
   \<and> IsEnvEqual \<lparr>EnvVars = [envA, envB], EnvFrom = [sourceA, sourceB], Hash = []\<rparr>
          (bootstrapContainer0\<lparr>Container_Env := [envA, envB],
             Container_EnvFrom := [sourceA, sourceB]\<rparr>)"
proof -
  have ne: "envA \<noteq> envB" "sourceA \<noteq> sourceB"
    by (simp_all add: envA_def envB_def sourceA_def sourceB_def)
  have 1: "\<not> IsEnvEqual \<lparr>EnvVars = [envB, envA], EnvFrom = [], Hash = []\<rparr>
          (bootstrapContainer0\<lparr>Container_Env := [envA, envB]\<rparr>)"
    using IsEnvEqual_order_sensitive [of "\<lparr>EnvVars = [envB, envA], EnvFrom = [], Hash = []\<rparr>"
        "bootstrapContainer0\<lparr>Container_Env := [envA, envB]\<rparr>"] ne
    by simp
  have 2: "\<not> IsEnvEqual \<lparr>EnvVars = [], EnvFrom = [sourceB, sourceA], Hash = []\<rparr>
          (bootstrapContainer0\<lparr>Container_EnvFrom := [sourceA, sourceB]\<rparr>)"
    using IsEnvEqual_order_sensitive [of "\<lparr>EnvVars = [], EnvFrom = [sourceB, sourceA], Hash = []\<rparr>"
        "bootstrapContainer0\<lparr>Container_EnvFrom := [sourceA, sourceB]\<rparr>"] ne
    by simp
  have 3: "IsEnvEqual \<lparr>EnvVars = [envA, envB], EnvFrom = [sourceA, sourceB], Hash = []\<rparr>
          (bootstrapContainer0\<lparr>Container_Env := [envA, envB],
             Container_EnvFrom := [sourceA, sourceB]\<rparr>)"
    using IsEnvEqual_order_sensitive [of
        "\<lparr>EnvVars = [envA, envB], EnvFrom = [sourceA, sourceB], Hash = []\<rparr>"
        "bootstrapContainer0\<lparr>Container_Env := [envA, envB],
           Container_EnvFrom := [sourceA, sourceB]\<rparr>"]
    by simp
  show ?thesis using ne 1 2 3 by simp
qed

text \<open>
  C9. The deferred function of \<^verbatim>\<open>NewInstance\<close> checks that the Pod pointer is not nil
  but not that the Pod has an annotation map, and assigning to an entry of a nil map
  panics. The cluster carries the pod patch that sets \<^verbatim>\<open>/metadata/annotations\<close> to
  null, so \<^verbatim>\<open>buildInstance\<close> returns a Pod without an annotation map. With no plugin
  client in the context the call panics where the pipeline is to return the patched,
  self-annotated Pod with no error, and with a client whose call fails it panics where
  it is to return the hook-invocation error. With the empty patch, in the same
  environment and without a client, the patched Pod is returned self-annotated.
\<close>

theorem NewInstance_panics_on_nil_annotations:
  "Cluster_Annotations (patched nullAnnotationsPatch)
      (PodPatchAnnotationName (utils world_null_patch)) = Some nullAnnotationsPatch
   \<and> GetPluginClientFromContext noClient = None
   \<and> buildInstance world_null_patch (patched nullAnnotationsPatch) 1 True =
       Inr ((composedPod world_null_patch (patched nullAnnotationsPatch) 1 True)
              \<lparr>Pod_ObjectMeta :=
                 (Pod_ObjectMeta (composedPod world_null_patch (patched nullAnnotationsPatch) 1 True))
                   \<lparr>ObjectMeta_Annotations := None\<rparr>\<rparr>)
   \<and> NewInstance world_null_patch noClient (patched nullAnnotationsPatch) 1 True = (Panic, [])
   \<and> fst (NewInstance world_null_patch failingHook (patched nullAnnotationsPatch) 1 True) = Panic
   \<and> NewInstance world_null_patch noClient (patched ''[]'') 1 True =
       (Return (Inr (Some (withAnnotation (composedPod world_null_patch (patched ''[]'') 1 True)
                             ''cnpg.io/podSpec'' ''postgres''))), [])"
proof -
  let ?c = "patched nullAnnotationsPatch"
  let ?pod = "composedPod world_null_patch ?c 1 True"
  let ?patched = "?pod\<lparr>Pod_ObjectMeta := (Pod_ObjectMeta ?pod)\<lparr>ObjectMeta_Annotations := None\<rparr>\<rparr>"
  let ?plain = "composedPod world_null_patch (patched ''[]'') 1 True"
  have k: "Cluster_Annotations ?c (PodPatchAnnotationName (utils world_null_patch)) =
             Some nullAnnotationsPatch"
    by (simp add: patched_def world_null_patch_simps world0_simps)
  have b: "buildInstance world_null_patch ?c 1 True = Inr ?patched"
    by (simp add: buildInstance_def Let_def world_null_patch_simps world0_simps patched_simps
        nullAnnotationsPatch_not_empty)
  have m: "json_Marshal_PodSpec (lib world_null_patch) (Pod_Spec ?patched) =
             Inr (concat (map Container_Name (PodSpec_Containers (Pod_Spec ?patched))))"
    by (simp add: world_null_patch_simps world0_simps)
  have d: "deferred world_null_patch (Some ?patched) = Panic"
    by (rule deferred_panics [OF m]) simp
  have 1: "NewInstance world_null_patch noClient ?c 1 True = (Panic, [])"
    using NewInstance_no_client [OF b hooks_simps(1)] d by simp
  have 2: "fst (NewInstance world_null_patch failingHook ?c 1 True) = Panic"
    using NewInstance_hook_error [OF b hooks_simps(3), where e = "''unavailable''"] d by simp
  have b': "buildInstance world_null_patch (patched ''[]'') 1 True = Inr ?plain"
    by (simp add: buildInstance_def Let_def world_null_patch_simps world0_simps patched_simps
        null_patch_sample)
  have a': "ObjectMeta_Annotations (Pod_ObjectMeta ?plain) \<noteq> None"
    using composedPod_annotations [of world_null_patch "patched ''[]''" 1 True,
        OF no_apparmor_variants]
    by simp
  have m': "json_Marshal_PodSpec (lib world_null_patch) (Pod_Spec ?plain) = Inr ''postgres''"
    by (simp add: world_null_patch_simps world0_simps null_patch_sample)
  have 3: "NewInstance world_null_patch noClient (patched ''[]'') 1 True =
       (Return (Inr (Some (withAnnotation ?plain ''cnpg.io/podSpec'' ''postgres''))), [])"
    using NewInstance_hook_step [OF b', of noClient] a'
    by (simp add: hooks_simps m' world_null_patch_simps world0_simps null_patch_sample)
  show ?thesis using k hooks_simps(1) b 1 2 3 by blast
qed

text \<open>
  C10. When the annotations of the cluster have no pod-patch entry, or an empty one,
  \<^verbatim>\<open>buildInstance\<close> returns the composed Pod, whatever the helpers of the environment
  compute: the application of the sandboxing annotations returns no error to
  \<^verbatim>\<open>buildInstance\<close>. When \<^verbatim>\<open>buildInstance\<close> returns an error, the cluster has a
  non-empty pod-patch annotation and the error comes from serializing the Pod, decoding
  the patch, applying it or decoding the patched document.
\<close>

theorem buildInstance_without_patch:
  "(Cluster_Annotations cluster (PodPatchAnnotationName (utils w)) = None \<longrightarrow>
      buildInstance w cluster nodeSerial tlsEnabled =
        Inr (composedPod w cluster nodeSerial tlsEnabled))
   \<and> (lookup (Cluster_Annotations cluster) (PodPatchAnnotationName (utils w)) = [] \<longrightarrow>
      buildInstance w cluster nodeSerial tlsEnabled =
        Inr (composedPod w cluster nodeSerial tlsEnabled))
   \<and> (buildInstance w cluster nodeSerial tlsEnabled = Inl err \<longrightarrow>
        lookup (Cluster_Annotations cluster) (PodPatchAnnotationName (utils w)) \<noteq> []
        \<and> (\<exists>e. err = SerializeError e \<or> err = PatchDecodeError e
               \<or> err = PatchApplyError e \<or> err = PatchDeserializeError e))"
  by (auto simp: buildInstance_def lookup_def Let_def split: sum.splits option.splits if_splits)

text \<open>
  C10, witness. The sample cluster has no pod-patch annotation and is built, also in an
  environment that applies sandboxing annotations; with an invalid patch the build fails
  in the decoding stage.
\<close>

theorem buildInstance_without_patch_witness:
  "Cluster_Annotations cluster0 (PodPatchAnnotationName (utils world0)) = None
   \<and> buildInstance world0 cluster0 1 True = Inr (composedPod world0 cluster0 1 True)
   \<and> buildInstance world_apparmor cluster0 1 True =
       Inr (composedPod world_apparmor cluster0 1 True)
   \<and> buildInstance world0 (patched ''x'') 1 True = Inl (PatchDecodeError ''invalid'')
   \<and> lookup (Cluster_Annotations (patched ''x'')) (PodPatchAnnotationName (utils world0)) \<noteq> []"
proof -
  have n: "Cluster_Annotations cluster0 k = None" for k by (rule patched_simps)
  have a: "buildInstance world0 cluster0 1 True = Inr (composedPod world0 cluster0 1 True)"
    using buildInstance_without_patch [of cluster0 world0 1 True] n by blast
  have b: "buildInstance world_apparmor cluster0 1 True =
       Inr (composedPod world_apparmor cluster0 1 True)"
    using buildInstance_without_patch [of cluster0 world_apparmor 1 True] n by blast
  have d: "lookup (Cluster_Annotations (patched ''x'')) (PodPatchAnnotationName (utils world0)) \<noteq> []"
    using buildInstance_without_patch [of "patched ''x''" world0 1 True "PatchDecodeError ''invalid''"] buildInstance_sample_invalid_patch
    by blast
  show ?thesis using n a b buildInstance_sample_invalid_patch d by blast
qed

end
